theory Spec2Isabelle
  imports Main "HOL-Library.Word"
begin

section \<open>Values shared by the BSD and Darwin files\<close>

type_synonym byte = "8 word"

text \<open>
  \<open>net.TCPAddr\<close>: an IP (a byte slice, \<open>nil\<close> is the empty list), a port and a zone.
\<close>

record TCPAddr =
  IP :: "byte list"
  Port :: int
  Zone :: string

text \<open>\<open>unix.Sockaddr\<close>: the two implementations the dialer builds.\<close>

datatype Sockaddr =
    SockaddrInet4 int "byte list"
  | SockaddrInet6 int "byte list"

text \<open>\<open>unix.Linger\<close>: two 32-bit fields.\<close>

record Linger =
  Onoff :: "32 word"
  Linger :: "32 word"

text \<open>
  Go error values. \<open>Errno\<close> is \<open>unix.Errno\<close>; \<open>SyscallError\<close> is what \<open>wrapSyscallError\<close>
  builds; \<open>Errorf\<close> is \<open>fmt.Errorf\<close> with \<open>%w\<close>; \<open>OpError\<close> is \<open>net.OpError\<close> with its
  fields Op, Net, Source, Addr, Err; \<open>ErrClosed\<close> and \<open>ErrFileClosing\<close> are the closed-file
  errors of packages os and internal/poll; \<open>ErrDeadlineExceeded\<close> is the poller's timeout.
\<close>

datatype error =
    Errno nat
  | SyscallError string error
  | Errorf string error
  | OpError string string "TCPAddr option" "TCPAddr option" error
  | ErrMismatchedAddressFamily
  | ErrClosed
  | ErrFileClosing
  | ErrDeadlineExceeded

text \<open>
  Modelled from the spec: \<open>wrapSyscallError\<close> is called by the source but defined in a file
  that is not part of it. The spec: every failure from a primitive is wrapped into an error
  carrying the attempted operation name and the underlying OS error.
\<close>

definition wrapSyscallError :: "string \<Rightarrow> error \<Rightarrow> error" where
  "wrapSyscallError name err = SyscallError name err"

subsection \<open>Constants of golang.org/x/sys/unix (Darwin values)\<close>

definition AF_INET :: int where "AF_INET = 2"
definition AF_INET6 :: int where "AF_INET6 = 30"
definition SOCK_STREAM :: int where "SOCK_STREAM = 1"
definition IPPROTO_TCP :: int where "IPPROTO_TCP = 6"
definition IPPROTO_IPV6 :: int where "IPPROTO_IPV6 = 41"
definition IPV6_V6ONLY :: int where "IPV6_V6ONLY = 27"
definition SOL_SOCKET :: int where "SOL_SOCKET = 65535"
definition SO_KEEPALIVE :: int where "SO_KEEPALIVE = 8"
definition SO_LINGER :: int where "SO_LINGER = 128"
definition TCP_NODELAY :: int where "TCP_NODELAY = 1"
definition TCP_KEEPALIVE :: int where "TCP_KEEPALIVE = 16"
definition TCP_KEEPINTVL :: int where "TCP_KEEPINTVL = 257"
definition TCP_FASTOPEN :: int where "TCP_FASTOPEN = 261"
definition EINPROGRESS :: error where "EINPROGRESS = Errno 36"

text \<open>\<open>time.Duration\<close> counts nanoseconds.\<close>

definition Millisecond :: int where "Millisecond = 1000000"
definition Second :: int where "Second = 1000 * Millisecond"

section \<open>The environment: system calls and library calls as a trace\<close>

text \<open>
  Everything the package asks of the kernel, of \<open>os.File\<close>, of \<open>syscall.RawConn\<close>, of
  \<open>net.ListenConfig\<close> and of its own mutex is a \<open>call\<close>. The first argument of a call on a
  descriptor, a file or a listener is that descriptor.

  \<open>PrepareWrite\<close> and \<open>WaitWrite\<close> are the two places where \<open>RawConn.Write\<close> can fail
  (taking the write lock of the file before the first call of the closure, waiting for
  writability between two calls); \<open>RawControl\<close> is \<open>RawConn.Control\<close> taking its reference on
  the file. \<open>GetSocketError\<close> and \<open>GetLocalAddr\<close> are the two methods of the connection that
  the Darwin connect calls and that are defined outside the source.
\<close>

datatype call =
    Socket int int int
  | CloseOnExec int
  | SetNonblock int bool
  | Close int
  | SetsockoptInt int int int int
  | SetsockoptLinger int int int Linger
  | Bind int Sockaddr
  | Connectx int int "Sockaddr option" Sockaddr "byte list"
  | MuLock int
  | MuUnlock int
  | FileSyscallConn int
  | PrepareWrite int
  | WaitWrite int
  | FileRead int nat
  | FileReadFrom int
  | FileWrite int "byte list"
  | FileClose int
  | GetSocketError int string
  | GetLocalAddr int
  | Listen string string
  | LnSyscallConn int
  | RawControl int
  | LnClose int

text \<open>
  A reply is the integer a call returns (a descriptor, a byte count; 0 when the call returns
  none) and its error (\<open>None\<close> is Go's \<open>nil\<close>). The world is the list of the calls made so far
  with their replies, oldest first. The environment \<open>os\<close> is a parameter of every operation: it
  answers a call from the history, so every theorem quantified over \<open>os\<close> holds whatever the
  kernel and the libraries reply.
\<close>

type_synonym reply = "int \<times> error option"
type_synonym world = "(call \<times> reply) list"
type_synonym env = "world \<Rightarrow> call \<Rightarrow> reply"

definition sys :: "env \<Rightarrow> call \<Rightarrow> world \<Rightarrow> reply \<times> world" where
  "sys os c w = (let r = os w c in (r, w @ [(c, r)]))"

text \<open>The calls of a world, without the replies.\<close>

definition calls :: "world \<Rightarrow> call list" where
  "calls w = map fst w"

section \<open>Socket options (tfo_bsd.go, tfo_darwin.go)\<close>

definition setIPv6Only :: "env \<Rightarrow> int \<Rightarrow> int \<Rightarrow> int \<Rightarrow> world \<Rightarrow> error option \<times> world" where
  "setIPv6Only os fd family ipv6only w =
     (if family = AF_INET6
      then (let (r, w') = sys os (SetsockoptInt fd IPPROTO_IPV6 IPV6_V6ONLY ipv6only) w
            in (None, w'))
      else (None, w))"

definition setNoDelay :: "env \<Rightarrow> int \<Rightarrow> int \<Rightarrow> world \<Rightarrow> error option \<times> world" where
  "setNoDelay os fd noDelay w =
     (let (r, w') = sys os (SetsockoptInt fd IPPROTO_TCP TCP_NODELAY noDelay) w
      in (snd r, w'))"

definition setKeepAlive :: "env \<Rightarrow> int \<Rightarrow> int \<Rightarrow> world \<Rightarrow> error option \<times> world" where
  "setKeepAlive os fd keepalive w =
     (let (r, w') = sys os (SetsockoptInt fd SOL_SOCKET SO_KEEPALIVE keepalive) w
      in (snd r, w'))"

text \<open>\<open>int32(sec)\<close> keeps the low 32 bits of \<open>sec\<close>.\<close>

definition setLinger :: "env \<Rightarrow> int \<Rightarrow> int \<Rightarrow> world \<Rightarrow> error option \<times> world" where
  "setLinger os fd sec w =
     (let l = (if sec \<ge> 0 then \<lparr>Onoff = 1, Linger = word_of_int sec\<rparr>
               else \<lparr>Onoff = 0, Linger = 0\<rparr>);
          (r, w') = sys os (SetsockoptLinger fd SOL_SOCKET SO_LINGER l) w
      in (snd r, w'))"

text \<open>
  Modelled from the spec: \<open>roundDurationUp\<close> is called by \<open>setKeepAlivePeriod\<close> but defined in
  a file that is not part of the source. The spec: the duration is converted into the OS's
  units, rounding up to the next whole unit, never truncating below the requested duration.
  Durations and the quotient are integers; \<open>int(...)\<close> of the quotient changes nothing on
  Darwin, where \<open>int\<close> has 64 bits as \<open>time.Duration\<close> has.
\<close>

definition roundDurationUp :: "int \<Rightarrow> int \<Rightarrow> int" where
  "roundDurationUp d to = - ((- d) div to)"

definition setKeepAlivePeriod :: "env \<Rightarrow> int \<Rightarrow> int \<Rightarrow> world \<Rightarrow> error option \<times> world" where
  "setKeepAlivePeriod os fd d w =
     (let secs = roundDurationUp d Second;
          (r, w1) = sys os (SetsockoptInt fd IPPROTO_TCP TCP_KEEPINTVL secs) w
      in case snd r of
           Some err \<Rightarrow> (Some err, w1)
         | None \<Rightarrow>
             (let (r2, w2) = sys os (SetsockoptInt fd IPPROTO_TCP TCP_KEEPALIVE secs) w1
              in (snd r2, w2)))"

definition SetTFOListener :: "env \<Rightarrow> int \<Rightarrow> world \<Rightarrow> error option \<times> world" where
  "SetTFOListener os fd w =
     (let (r, w') = sys os (SetsockoptInt fd IPPROTO_TCP TCP_FASTOPEN 1) w
      in (snd r, w'))"

definition SetTFODialer :: "env \<Rightarrow> int \<Rightarrow> world \<Rightarrow> error option \<times> world" where
  "SetTFODialer os fd w = (None, w)"

section \<open>Creating the socket (tfo_darwin.go)\<close>

text \<open>
  \<open>socket\<close> has named results \<open>(fd, err)\<close>: a failed \<open>unix.Socket\<close> returns what the call
  returned; a failed \<open>unix.SetNonblock\<close> closes the descriptor and returns 0 with the error.
\<close>

definition socket :: "env \<Rightarrow> int \<Rightarrow> world \<Rightarrow> (int \<times> error option) \<times> world" where
  "socket os domain w =
     (let ((fd, err), w1) = sys os (Socket domain SOCK_STREAM IPPROTO_TCP) w
      in case err of
           Some e \<Rightarrow> ((fd, Some e), w1)
         | None \<Rightarrow>
             (let (r2, w2) = sys os (CloseOnExec fd) w1;
                  ((v3, err3), w3) = sys os (SetNonblock fd True) w2
              in case err3 of
                   Some e \<Rightarrow> (let (r4, w4) = sys os (Close fd) w3 in ((0, Some e), w4))
                 | None \<Rightarrow> ((fd, None), w3)))"

section \<open>Addresses\<close>

text \<open>
  \<open>net.IP.To4\<close> of the standard library: a 4-byte slice is returned as it is, a 16-byte slice
  with the IPv4-mapped prefix gives its last four bytes, anything else gives \<open>nil\<close>.
\<close>

definition isZeros :: "byte list \<Rightarrow> bool" where
  "isZeros p = list_all (\<lambda>x. x = 0) p"

definition To4 :: "byte list \<Rightarrow> byte list option" where
  "To4 ip =
     (if length ip = 4 then Some ip
      else if length ip = 16 \<and> isZeros (take 10 ip) \<and> ip ! 10 = 255 \<and> ip ! 11 = 255
      then Some (drop 12 ip)
      else None)"

text \<open>
  The conversion \<open>*(*[k]byte)(s)\<close> of a slice to an array: Go panics when the slice is shorter
  than \<open>k\<close> and copies its first \<open>k\<close> bytes otherwise. \<open>None\<close> is the panic.
\<close>

definition sliceToArray :: "nat \<Rightarrow> byte list \<Rightarrow> byte list option" where
  "sliceToArray k s = (if length s < k then None else Some (take k s))"

text \<open>A call either returns or panics.\<close>

datatype 'a outcome = Return 'a | Panic

section \<open>The connection (tfo_bsd.go)\<close>

text \<open>
  The struct \<open>tfoConn\<close>. The file \<open>f\<close> is \<open>os.NewFile\<close> of the descriptor and is named by that
  descriptor; the mutex \<open>mu\<close> holds no data and shows in the trace as \<open>MuLock\<close> and
  \<open>MuUnlock\<close> of the descriptor. Pointers that may be \<open>nil\<close> are options.
\<close>

record tfoConn =
  fd :: int
  f :: int
  connected :: bool
  network :: string
  laddr :: "TCPAddr option"
  raddr :: "TCPAddr option"
  lsockaddr :: Sockaddr
  rsockaddr :: Sockaddr

text \<open>
  \<open>dialTFO\<close>. Reading \<open>raddr.IP\<close> of a \<open>nil\<close> remote address panics, as do the two array
  conversions on a short slice. The \<open>err\<close> of the last \<open>return\<close> is the one of \<open>socket\<close>, which
  is \<open>nil\<close> there, so the last return is the successful one.
\<close>

definition dialTFO ::
  "env \<Rightarrow> string \<Rightarrow> TCPAddr option \<Rightarrow> TCPAddr option \<Rightarrow> world \<Rightarrow> (error + tfoConn) outcome \<times> world"
where
  "dialTFO os netw la ra w =
     (case ra of
        None \<Rightarrow> (Panic, w)
      | Some r \<Rightarrow>
     (let raddrIs4 = (To4 (IP r) \<noteq> None);
          domain = (if raddrIs4 then AF_INET else AF_INET6)
      in case (if raddrIs4 then map_option (SockaddrInet4 (Port r)) (sliceToArray 4 (IP r))
               else map_option (SockaddrInet6 (Port r)) (sliceToArray 16 (IP r))) of
           None \<Rightarrow> (Panic, w)
         | Some rsa \<Rightarrow>
     (case (case la of
              Some l \<Rightarrow>
                (let laddrIs4 = (To4 (IP l) \<noteq> None)
                 in if laddrIs4 \<noteq> raddrIs4 then Return (Inl ErrMismatchedAddressFamily)
                    else (case (if laddrIs4
                                then map_option (SockaddrInet4 (Port l)) (sliceToArray 4 (IP l))
                                else map_option (SockaddrInet6 (Port l)) (sliceToArray 16 (IP l))) of
                            None \<Rightarrow> Panic
                          | Some a \<Rightarrow> Return (Inr a)))
            | None \<Rightarrow>
                (if raddrIs4 then Return (Inr (SockaddrInet4 0 (replicate 4 0)))
                 else Return (Inr (SockaddrInet6 0 (replicate 16 0))))) of
        Panic \<Rightarrow> (Panic, w)
      | Return (Inl e) \<Rightarrow> (Return (Inl e), w)
      | Return (Inr lsa) \<Rightarrow>
     (let ((sfd, err), w1) = socket os domain w
      in case err of
           Some e \<Rightarrow> (Return (Inl (wrapSyscallError ''socket'' e)), w1)
         | None \<Rightarrow>
     (let v6only = (if netw = ''tcp6'' then 1 else 0);
          (err2, w2) = setIPv6Only os sfd domain v6only w1
      in case err2 of
           Some e \<Rightarrow> (Return (Inl (wrapSyscallError ''setsockopt'' e)), w2)
         | None \<Rightarrow>
     (let (err3, w3) = setNoDelay os sfd 1 w2
      in case err3 of
           Some e \<Rightarrow> (Return (Inl (wrapSyscallError ''setsockopt'' e)), w3)
         | None \<Rightarrow>
     (let (err4, w4) = SetTFODialer os sfd w3
      in case err4 of
           Some e \<Rightarrow> (Return (Inl (wrapSyscallError ''setsockopt'' e)), w4)
         | None \<Rightarrow>
     (let (err5, w5) = (if la \<noteq> None
                        then (let (r5, w') = sys os (Bind sfd lsa) w4 in (snd r5, w'))
                        else (None, w4))
      in case err5 of
           Some e \<Rightarrow> (Return (Inl (wrapSyscallError ''bind'' e)), w5)
         | None \<Rightarrow>
             (Return (Inr \<lparr>fd = sfd, f = sfd, connected = False, network = netw,
                           laddr = la, raddr = ra, lsockaddr = lsa, rsockaddr = rsa\<rparr>),
              w5)))))))))"

section \<open>The Darwin connect strategy (tfo_darwin.go)\<close>

text \<open>
  The closure handed to \<open>rawConn.Write\<close>. It captures \<open>n\<close> of \<open>connect\<close> and its own \<open>done\<close>
  flag, the pair the model threads through. Its \<open>err\<close> is declared by \<open>:=\<close> inside the
  closure, a variable of the closure that is gone when the closure returns.
\<close>

definition connect_closure ::
  "env \<Rightarrow> tfoConn \<Rightarrow> byte list \<Rightarrow> (int \<times> bool) \<times> world \<Rightarrow> bool \<times> (int \<times> bool) \<times> world"
where
  "connect_closure os c b =
     (\<lambda>((n, done'), w).
        if done' then (True, (n, done'), w)
        else (let ((bytesSent, err), w') = sys os (Connectx (fd c) 0 None (rsockaddr c) b) w
              in if err = Some EINPROGRESS then (False, (bytesSent, True), w')
                 else (True, (bytesSent, True), w')))"

text \<open>
  \<open>rawConn.Write\<close> of the standard library with that closure: after taking the write lock
  (\<open>PrepareWrite\<close>, which fails on a closed file) it calls the closure until it returns true,
  waiting for writability (\<open>WaitWrite\<close>, which fails on a deadline or a close) between calls.
\<close>

function RawWrite_loop ::
  "env \<Rightarrow> tfoConn \<Rightarrow> byte list \<Rightarrow> (int \<times> bool) \<times> world \<Rightarrow> error option \<times> (int \<times> bool) \<times> world"
where
  "RawWrite_loop os c b s =
     (case connect_closure os c b s of
        (True, v, w) \<Rightarrow> (None, v, w)
      | (False, v, w) \<Rightarrow>
          (case sys os (WaitWrite (f c)) w of
             ((k, Some e), w') \<Rightarrow> (Some e, v, w')
           | ((k, None), w') \<Rightarrow> RawWrite_loop os c b (v, w')))"
  by pat_completeness auto
termination
  by (relation "measure (\<lambda>(os, c, b, (n, d), w). if d then 0 else 1)")
     (auto simp: connect_closure_def Let_def split: if_splits prod.splits)

definition rawConn_Write ::
  "env \<Rightarrow> tfoConn \<Rightarrow> byte list \<Rightarrow> (int \<times> bool) \<times> world \<Rightarrow> error option \<times> (int \<times> bool) \<times> world"
where
  "rawConn_Write os c b s =
     (let (v, w) = s;
          ((k, err), w1) = sys os (PrepareWrite (f c)) w
      in case err of
           Some e \<Rightarrow> (Some e, v, w1)
         | None \<Rightarrow> RawWrite_loop os c b (v, w1))"

text \<open>
  Modelled from the spec: \<open>getSocketError\<close> and \<open>getLocalAddr\<close> are methods of the connection
  that \<open>connect\<close> calls and that are defined outside the source. The spec: an in-progress
  outcome is resolved by the calling thread, a failure of the handshake is returned wrapped
  with the operation name, and the bound local address is resolved by the connect. Each is a
  call to the environment that may fail; the address stored by \<open>getLocalAddr\<close> is read by no
  operation of the model and the field is left as it is.
\<close>

definition getSocketError :: "env \<Rightarrow> string \<Rightarrow> tfoConn \<times> world \<Rightarrow> error option \<times> world" where
  "getSocketError os name s =
     (let (c, w) = s; (r, w') = sys os (GetSocketError (fd c) name) w in (snd r, w'))"

definition getLocalAddr :: "env \<Rightarrow> tfoConn \<times> world \<Rightarrow> error option \<times> tfoConn \<times> world" where
  "getLocalAddr os s =
     (let (c, w) = s; (r, w') = sys os (GetLocalAddr (fd c)) w in (snd r, c, w'))"

text \<open>
  \<open>connect\<close> has named results \<open>(n, err)\<close>. After \<open>SyscallConn\<close> has succeeded \<open>err\<close> is \<open>nil\<close>,
  and the closure assigns \<open>n\<close> only: the test of \<open>err\<close> after \<open>rawConn.Write\<close> reads the
  \<open>err\<close> of \<open>SyscallConn\<close>.
\<close>

definition connect ::
  "env \<Rightarrow> byte list \<Rightarrow> tfoConn \<times> world \<Rightarrow> (int \<times> error option) \<times> tfoConn \<times> world"
where
  "connect os b s =
     (let (c, w) = s;
          ((k, err), w1) = sys os (FileSyscallConn (f c)) w
      in case err of
           Some e \<Rightarrow> ((0, Some (Errorf ''failed to get syscall.RawConn: %w'' e)), c, w1)
         | None \<Rightarrow>
     (let (perr, (n, done'), w2) = rawConn_Write os c b ((0, False), w1)
      in case err of
           Some e \<Rightarrow> ((0, Some (wrapSyscallError ''connectx'' e)), c, w2)
         | None \<Rightarrow>
     (case perr of
        Some pe \<Rightarrow> ((0, Some pe), c, w2)
      | None \<Rightarrow>
     (let (err1, w3) = getSocketError os ''connectx'' (c, w2)
      in case err1 of
           Some e \<Rightarrow> ((n, Some e), c, w3)
         | None \<Rightarrow>
             (let (err2, c', w4) = getLocalAddr os (c, w3)
              in ((n, err2), c', w4))))))"

section \<open>Read, ReadFrom, Write and Close (tfo_bsd.go)\<close>

definition Lock :: "env \<Rightarrow> tfoConn \<Rightarrow> world \<Rightarrow> world" where
  "Lock os c w = snd (sys os (MuLock (fd c)) w)"

definition Unlock :: "env \<Rightarrow> tfoConn \<Rightarrow> world \<Rightarrow> world" where
  "Unlock os c w = snd (sys os (MuUnlock (fd c)) w)"

text \<open>
  \<open>Read\<close> fills the caller's buffer \<open>b\<close>; the model keeps the count and the error that
  \<open>c.f.Read\<close> returns, and of the buffer its length.
\<close>

definition Read ::
  "env \<Rightarrow> byte list \<Rightarrow> tfoConn \<times> world \<Rightarrow> (int \<times> error option) \<times> tfoConn \<times> world"
where
  "Read os b s =
     (let (c, w) = s;
          w1 = Lock os c w
      in if \<not> connected c
         then (let ((k, err), c', w2) = connect os [] (c, w1)
               in case err of
                    Some e \<Rightarrow> ((0, Some e), c', Unlock os c' w2)
                  | None \<Rightarrow>
                      (let c'' = c'\<lparr>connected := True\<rparr>;
                           w3 = Unlock os c'' w2;
                           (r, w4) = sys os (FileRead (f c'') (length b)) w3
                       in (r, c'', w4)))
         else (let w3 = Unlock os c w1;
                   (r, w4) = sys os (FileRead (f c) (length b)) w3
               in (r, c, w4)))"

text \<open>\<open>ReadFrom\<close>: the reader \<open>r\<close> is consumed by \<open>c.f.ReadFrom\<close> only.\<close>

definition ReadFrom ::
  "env \<Rightarrow> tfoConn \<times> world \<Rightarrow> (int \<times> error option) \<times> tfoConn \<times> world"
where
  "ReadFrom os s =
     (let (c, w) = s;
          w1 = Lock os c w
      in if \<not> connected c
         then (let ((k, err), c', w2) = connect os [] (c, w1)
               in case err of
                    Some e \<Rightarrow> ((0, Some e), c', Unlock os c' w2)
                  | None \<Rightarrow>
                      (let c'' = c'\<lparr>connected := True\<rparr>;
                           w3 = Unlock os c'' w2;
                           (r, w4) = sys os (FileReadFrom (f c'')) w3
                       in (r, c'', w4)))
         else (let w3 = Unlock os c w1;
                   (r, w4) = sys os (FileReadFrom (f c)) w3
               in (r, c, w4)))"

definition Write ::
  "env \<Rightarrow> byte list \<Rightarrow> tfoConn \<times> world \<Rightarrow> (int \<times> error option) \<times> tfoConn \<times> world"
where
  "Write os b s =
     (let (c, w) = s;
          w1 = Lock os c w
      in if connected c
         then (let w2 = Unlock os c w1;
                   (r, w3) = sys os (FileWrite (f c) b) w2
               in (r, c, w3))
         else (let ((n, err), c', w2) = connect os b (c, w1);
                   c'' = (if err = None then c'\<lparr>connected := True\<rparr> else c')
               in ((n, err), c'', Unlock os c'' w2)))"

definition Close_conn :: "env \<Rightarrow> tfoConn \<times> world \<Rightarrow> error option \<times> tfoConn \<times> world" where
  "Close_conn os s =
     (let (c, w) = s;
          ((k, err), w1) = sys os (FileClose (f c)) w
      in case err of
           Some e \<Rightarrow> (Some (OpError ''close'' (network c) (laddr c) (raddr c) e), c, w1)
         | None \<Rightarrow> (None, c, w1))"

section \<open>The listener (tfo_darwin.go)\<close>

text \<open>
  \<open>listenTFO\<close> returns a listener and an error, and both can be non-nil. The listener that
  \<open>net.ListenConfig.Listen\<close> returns is named by the integer of the reply; it is a
  \<open>*net.TCPListener\<close> for the networks tcp, tcp4 and tcp6 only, and the type assertion
  panics on any other. \<open>RawConn.Control\<close> either fails before it calls the closure or calls
  it and returns \<open>nil\<close>.
\<close>

definition listenTFO ::
  "env \<Rightarrow> string \<Rightarrow> string \<Rightarrow> world \<Rightarrow> (int option \<times> error option) outcome \<times> world"
where
  "listenTFO os netw address w =
     (let ((ln, err), w1) = sys os (Listen netw address) w
      in case err of
           Some e \<Rightarrow> (Return (None, Some e), w1)
         | None \<Rightarrow>
     (if netw \<noteq> ''tcp'' \<and> netw \<noteq> ''tcp4'' \<and> netw \<noteq> ''tcp6'' then (Panic, w1)
      else
     (let ((k2, err2), w2) = sys os (LnSyscallConn ln) w1
      in case err2 of
           Some e \<Rightarrow> (let (r, w3) = sys os (LnClose ln) w2 in (Return (None, Some e), w3))
         | None \<Rightarrow>
     (let ((k3, err3), w3) = sys os (RawControl ln) w2
      in case err3 of
           Some e \<Rightarrow> (let (r, w4) = sys os (LnClose ln) w3 in (Return (None, Some e), w4))
         | None \<Rightarrow>
             (let (innerErr, w4) = SetTFOListener os ln w3
              in (Return (Some ln, innerErr), w4))))))"

section \<open>Sequences of operations on one handle\<close>

datatype op = OpRead "byte list" | OpReadFrom | OpWrite "byte list" | OpClose

fun step :: "env \<Rightarrow> op \<Rightarrow> tfoConn \<times> world \<Rightarrow> tfoConn \<times> world" where
  "step os (OpRead b) s = snd (Read os b s)"
| "step os OpReadFrom s = snd (ReadFrom os s)"
| "step os (OpWrite b) s = snd (Write os b s)"
| "step os OpClose s = snd (Close_conn os s)"

fun run :: "env \<Rightarrow> op list \<Rightarrow> tfoConn \<times> world \<Rightarrow> tfoConn \<times> world" where
  "run os [] s = s"
| "run os (x # xs) s = run os xs (step os x s)"

text \<open>
  The first statement of \<open>connect\<close> is \<open>c.f.SyscallConn()\<close> and nothing else calls it: the
  invocations of \<open>connect\<close> on a handle are the \<open>FileSyscallConn\<close> calls on its file.
\<close>

definition connect_invocations :: "tfoConn \<Rightarrow> world \<Rightarrow> nat" where
  "connect_invocations c w = length (filter (\<lambda>x. x = FileSyscallConn (f c)) (calls w))"

section \<open>Concrete environments\<close>

text \<open>
  \<open>os_ok\<close>: every call succeeds; \<open>unix.Socket\<close> returns descriptor 3, \<open>Listen\<close> listener 4,
  and \<open>Connectx\<close>, \<open>Write\<close> and \<open>Read\<close> take the whole buffer. \<open>os_fail c e\<close> fails the call
  \<open>c\<close> with \<open>e\<close> and is \<open>os_ok\<close> elsewhere.
\<close>

definition os_ok :: env where
  "os_ok w c =
     (case c of
        Socket d t p \<Rightarrow> (3, None)
      | Listen nw a \<Rightarrow> (4, None)
      | Connectx s i src dst b \<Rightarrow> (int (length b), None)
      | FileWrite s b \<Rightarrow> (int (length b), None)
      | FileRead s k \<Rightarrow> (int k, None)
      | _ \<Rightarrow> (0, None))"

definition os_fail :: "call \<Rightarrow> error \<Rightarrow> env" where
  "os_fail c e w x = (if x = c then (0, Some e) else os_ok w x)"

text \<open>The part of a world \<open>w'\<close> added after \<open>w\<close>, and the calls of that part that failed.\<close>

definition since :: "world \<Rightarrow> world \<Rightarrow> world" where
  "since w w' = drop (length w) w'"

definition failed :: "world \<Rightarrow> (call \<times> error) list" where
  "failed w = concat (map (\<lambda>(c, r). case snd r of None \<Rightarrow> [] | Some e \<Rightarrow> [(c, e)]) w)"

text \<open>
  \<open>os_short\<close>: \<open>Connectx\<close> takes two bytes of the payload. \<open>os_closing\<close>: once a file has
  been closed, reading and writing it fail with \<open>ErrClosed\<close> and its write lock cannot be
  taken.
\<close>

definition os_short :: env where
  "os_short w c = (case c of Connectx s i src dst b \<Rightarrow> (2, None) | _ \<Rightarrow> os_ok w c)"

definition os_closing :: env where
  "os_closing w c =
     (case c of
        FileRead s k \<Rightarrow> if FileClose s \<in> set (calls w) then (0, Some ErrClosed) else os_ok w c
      | FileReadFrom s \<Rightarrow> if FileClose s \<in> set (calls w) then (0, Some ErrClosed) else os_ok w c
      | FileWrite s b \<Rightarrow> if FileClose s \<in> set (calls w) then (0, Some ErrClosed) else os_ok w c
      | PrepareWrite s \<Rightarrow>
          if FileClose s \<in> set (calls w) then (0, Some ErrFileClosing) else os_ok w c
      | _ \<Rightarrow> os_ok w c)"

text \<open>Two addresses and the handle that dialing 127.0.0.1:80 gives.\<close>

definition addr4 :: TCPAddr where
  "addr4 = \<lparr>IP = [127, 0, 0, 1], Port = 80, Zone = []\<rparr>"

definition addr6 :: TCPAddr where
  "addr6 = \<lparr>IP = [0, 0, 0, 0, 0, 0, 0, 0, 0, 0, 0, 0, 0, 0, 0, 1], Port = 80, Zone = []\<rparr>"

definition conn0 :: tfoConn where
  "conn0 = \<lparr>fd = 3, f = 3, connected = False, network = ''tcp'', laddr = None,
            raddr = Some addr4, lsockaddr = SockaddrInet4 0 [0, 0, 0, 0],
            rsockaddr = SockaddrInet4 80 [127, 0, 0, 1]\<rparr>"

text \<open>
  The sequences of calls one invocation of \<open>connect\<close> with payload \<open>b\<close> can make: it stops
  after \<open>SyscallConn\<close>, after the write lock, after a failed wait, after \<open>getSocketError\<close>, or
  runs to \<open>getLocalAddr\<close>, with or without a wait for writability.
\<close>

definition connect_shapes :: "tfoConn \<Rightarrow> byte list \<Rightarrow> call list list" where
  "connect_shapes c b =
     (let SC = FileSyscallConn (f c); PW = PrepareWrite (f c);
          CX = Connectx (fd c) 0 None (rsockaddr c) b; WW = WaitWrite (f c);
          GSE = GetSocketError (fd c) ''connectx''; GLA = GetLocalAddr (fd c)
      in [[SC], [SC, PW], [SC, PW, CX, WW],
          [SC, PW, CX, GSE], [SC, PW, CX, GSE, GLA],
          [SC, PW, CX, WW, GSE], [SC, PW, CX, WW, GSE, GLA]])"

text \<open>The payload an operation hands to \<open>connect\<close> on a handle that is not connected.\<close>

fun payload :: "op \<Rightarrow> byte list" where
  "payload (OpWrite b) = b"
| "payload x = []"

text \<open>
  What package os does with a closed file: \<open>Read\<close> and \<open>Write\<close> return 0 and \<open>ErrClosed\<close>,
  \<open>SyscallConn\<close> does not look at the state of the file, and \<open>RawConn.Write\<close> cannot take
  the write lock and returns \<open>ErrFileClosing\<close> without calling the closure.
\<close>

definition closed_file_errors :: "env \<Rightarrow> bool" where
  "closed_file_errors os =
     (\<forall>w s. FileClose s \<in> set (calls w) \<longrightarrow>
        (\<forall>k. os w (FileRead s k) = (0, Some ErrClosed))
      \<and> (\<forall>b. os w (FileWrite s b) = (0, Some ErrClosed))
      \<and> snd (os w (FileSyscallConn s)) = None
      \<and> os w (PrepareWrite s) = (0, Some ErrFileClosing))"

text \<open>
  The last statement of \<open>connect\<close> returns the error of \<open>getLocalAddr\<close>, and every
  earlier return carries an error: the invocations of \<open>connect\<close> that returned no error
  are the \<open>GetLocalAddr\<close> calls that replied none.
\<close>

definition successful_connects :: "tfoConn \<Rightarrow> world \<Rightarrow> nat" where
  "successful_connects c w =
     length (filter (\<lambda>x. fst x = GetLocalAddr (fd c) \<and> snd (snd x) = None) w)"

section \<open>Properties\<close>

subsection \<open>Traces\<close>

lemma sys_simp: "sys os c w = (os w c, w @ [(c, os w c)])"
  by (simp add: sys_def Let_def)

lemma failed_Nil: "failed [] = []"
  by (simp add: failed_def)

lemma failed_Cons:
  "failed ((c, r) # xs) = (case snd r of None \<Rightarrow> [] | Some e \<Rightarrow> [(c, e)]) @ failed xs"
  by (simp add: failed_def)

lemma failed_append: "failed (xs @ ys) = failed xs @ failed ys"
  by (simp add: failed_def)

lemma since_append: "since w (w @ ext) = ext"
  by (simp add: since_def)

subsection \<open>Keep-alive period\<close>

lemma roundDurationUp_Second:
  "d \<le> roundDurationUp d Second * Second \<and> roundDurationUp d Second * Second < d + Second"
proof -
  have s: "Second = 1000000000" by (simp add: Second_def Millisecond_def)
  have "d \<le> - ((- d) div 1000000000) * 1000000000" by linarith
  moreover have "- ((- d) div 1000000000) * 1000000000 < d + 1000000000" by linarith
  ultimately show ?thesis unfolding roundDurationUp_def s by simp
qed

lemma roundDurationUp_1500: "roundDurationUp (1500 * Millisecond) Second = 2"
  by (simp add: roundDurationUp_def Second_def Millisecond_def)

text \<open>
  Claim C8. For every duration \<open>d\<close>, \<open>setKeepAlivePeriod\<close> programs a number of whole seconds
  \<open>secs\<close> that is \<open>d\<close> rounded up: \<open>secs\<close> seconds are not shorter than \<open>d\<close> and less than one
  second longer. For 1500ms it is 2. The first option set is \<open>TCP_KEEPINTVL\<close>, the second
  \<open>TCP_KEEPALIVE\<close>, both with the value \<open>secs\<close>; the second is left out only when the first
  call failed, and then the error is returned.
\<close>

theorem setKeepAlivePeriod_rounds_up:
  assumes "setKeepAlivePeriod os sfd d w = (err, w')"
  shows "\<exists>secs. d \<le> secs * Second \<and> secs * Second < d + Second
           \<and> (d = 1500 * Millisecond \<longrightarrow> secs = 2)
           \<and> (calls (since w w') =
                 [SetsockoptInt sfd IPPROTO_TCP TCP_KEEPINTVL secs,
                  SetsockoptInt sfd IPPROTO_TCP TCP_KEEPALIVE secs]
              \<or> (calls (since w w') = [SetsockoptInt sfd IPPROTO_TCP TCP_KEEPINTVL secs]
                 \<and> snd (os w (SetsockoptInt sfd IPPROTO_TCP TCP_KEEPINTVL secs)) \<noteq> None
                 \<and> err \<noteq> None))"
proof (intro exI [of _ "roundDurationUp d Second"] conjI)
  show "d \<le> roundDurationUp d Second * Second"
    using roundDurationUp_Second by simp
  show "roundDurationUp d Second * Second < d + Second"
    using roundDurationUp_Second by simp
  show "d = 1500 * Millisecond \<longrightarrow> roundDurationUp d Second = 2"
    using roundDurationUp_1500 by simp
  show "calls (since w w') =
          [SetsockoptInt sfd IPPROTO_TCP TCP_KEEPINTVL (roundDurationUp d Second),
           SetsockoptInt sfd IPPROTO_TCP TCP_KEEPALIVE (roundDurationUp d Second)]
        \<or> (calls (since w w') =
              [SetsockoptInt sfd IPPROTO_TCP TCP_KEEPINTVL (roundDurationUp d Second)]
           \<and> snd (os w (SetsockoptInt sfd IPPROTO_TCP TCP_KEEPINTVL (roundDurationUp d Second)))
               \<noteq> None
           \<and> err \<noteq> None)"
  proof -
    obtain k e1 where r:
      "os w (SetsockoptInt sfd IPPROTO_TCP TCP_KEEPINTVL (roundDurationUp d Second)) = (k, e1)"
      by (cases "os w (SetsockoptInt sfd IPPROTO_TCP TCP_KEEPINTVL (roundDurationUp d Second))")
    show ?thesis
      using assms r
      by (cases e1) (auto simp: setKeepAlivePeriod_def sys_simp Let_def calls_def since_def)
  qed
qed

theorem setKeepAlivePeriod_rounds_up_witness:
  "calls (snd (setKeepAlivePeriod os_ok 3 (1500 * Millisecond) [])) =
     [SetsockoptInt 3 IPPROTO_TCP TCP_KEEPINTVL 2, SetsockoptInt 3 IPPROTO_TCP TCP_KEEPALIVE 2]"
proof -
  have h: "setKeepAlivePeriod os_ok 3 (1500 * Millisecond) [] =
             (None, [(SetsockoptInt 3 IPPROTO_TCP TCP_KEEPINTVL 2, (0, None)),
                     (SetsockoptInt 3 IPPROTO_TCP TCP_KEEPALIVE 2, (0, None))])"
    by (simp add: setKeepAlivePeriod_def sys_simp Let_def os_ok_def roundDurationUp_1500)
  from setKeepAlivePeriod_rounds_up [OF h]
  obtain secs where "1500 * Millisecond \<le> secs * Second" and "secs = 2"
    by auto
  with h show ?thesis
    by (simp add: calls_def)
qed

subsection \<open>Which setters report a failed setsockopt\<close>

text \<open>
  Claim C9, as stated, fails for \<open>setIPv6Only\<close>: on an IPv6 socket whose \<open>IPV6_V6ONLY\<close>
  call fails with EINVAL (22), the setter returns \<open>nil\<close>.
\<close>

theorem setIPv6Only_swallows_failure:
  "failed (since [] (snd (setIPv6Only
       (os_fail (SetsockoptInt 3 IPPROTO_IPV6 IPV6_V6ONLY 1) (Errno 22)) 3 AF_INET6 1 []))) =
     [(SetsockoptInt 3 IPPROTO_IPV6 IPV6_V6ONLY 1, Errno 22)]
   \<and> fst (setIPv6Only
       (os_fail (SetsockoptInt 3 IPPROTO_IPV6 IPV6_V6ONLY 1) (Errno 22)) 3 AF_INET6 1 []) = None"
  by (simp add: setIPv6Only_def sys_simp failed_def since_def os_fail_def)

text \<open>
  Claim C9, amended. \<open>setNoDelay\<close>, \<open>setKeepAlive\<close>, \<open>setLinger\<close> and \<open>setKeepAlivePeriod\<close>
  return an error exactly when a setsockopt call they made failed, and the error returned is
  the error of that call; \<open>setIPv6Only\<close> always returns \<open>nil\<close>.
\<close>

theorem setters_report_failure:
  "map snd (failed (since w (snd (setNoDelay os sfd v w)))) =
     (case fst (setNoDelay os sfd v w) of None \<Rightarrow> [] | Some e \<Rightarrow> [e])
   \<and> map snd (failed (since w (snd (setKeepAlive os sfd v w)))) =
     (case fst (setKeepAlive os sfd v w) of None \<Rightarrow> [] | Some e \<Rightarrow> [e])
   \<and> map snd (failed (since w (snd (setLinger os sfd v w)))) =
     (case fst (setLinger os sfd v w) of None \<Rightarrow> [] | Some e \<Rightarrow> [e])
   \<and> map snd (failed (since w (snd (setKeepAlivePeriod os sfd d w)))) =
     (case fst (setKeepAlivePeriod os sfd d w) of None \<Rightarrow> [] | Some e \<Rightarrow> [e])
   \<and> fst (setIPv6Only os sfd family v w) = None"
proof (intro conjI)
  show "map snd (failed (since w (snd (setNoDelay os sfd v w)))) =
     (case fst (setNoDelay os sfd v w) of None \<Rightarrow> [] | Some e \<Rightarrow> [e])"
    by (simp add: setNoDelay_def sys_simp since_append failed_Nil failed_Cons
          split: option.splits)
  show "map snd (failed (since w (snd (setKeepAlive os sfd v w)))) =
     (case fst (setKeepAlive os sfd v w) of None \<Rightarrow> [] | Some e \<Rightarrow> [e])"
    by (simp add: setKeepAlive_def sys_simp since_append failed_Nil failed_Cons
          split: option.splits)
  show "map snd (failed (since w (snd (setLinger os sfd v w)))) =
     (case fst (setLinger os sfd v w) of None \<Rightarrow> [] | Some e \<Rightarrow> [e])"
    by (simp add: setLinger_def sys_simp since_append failed_Nil failed_Cons Let_def
          split: option.splits)
  show "map snd (failed (since w (snd (setKeepAlivePeriod os sfd d w)))) =
     (case fst (setKeepAlivePeriod os sfd d w) of None \<Rightarrow> [] | Some e \<Rightarrow> [e])"
    by (simp add: setKeepAlivePeriod_def sys_simp since_def failed_Nil failed_Cons
          failed_append Let_def split: option.splits)
  show "fst (setIPv6Only os sfd family v w) = None"
    by (simp add: setIPv6Only_def sys_simp)
qed

subsection \<open>Dialing\<close>

lemma dial_conn0:
  "dialTFO os_ok ''tcp'' None (Some addr4) [] =
     (Return (Inr conn0),
      [(Socket AF_INET SOCK_STREAM IPPROTO_TCP, (3, None)), (CloseOnExec 3, (0, None)),
       (SetNonblock 3 True, (0, None)), (SetsockoptInt 3 IPPROTO_TCP TCP_NODELAY 1, (0, None))])"
  by (simp add: dialTFO_def To4_def Let_def sliceToArray_def addr4_def socket_def sys_simp
        os_ok_def setIPv6Only_def setNoDelay_def SetTFODialer_def conn0_def AF_INET_def
        AF_INET6_def numeral_eq_Suc)

lemma To4_addr4: "To4 (IP addr4) = Some [127, 0, 0, 1]"
  by (simp add: To4_def addr4_def)

lemma To4_addr6: "To4 (IP addr6) = None"
  by (simp add: To4_def addr6_def isZeros_def)

text \<open>
  Claim C7. A dial with a local address whose family differs from the remote's (one is an
  IPv4 address by \<open>To4\<close>, the other is not) returns \<open>ErrMismatchedAddressFamily\<close> and leaves
  the world as it was: no call is made, so no socket is created. The remote IP is an IP
  address, of 4 or 16 bytes.
\<close>

theorem dialTFO_family_mismatch:
  assumes "length (IP r) = 4 \<or> length (IP r) = 16"
    and "(To4 (IP l) \<noteq> None) \<noteq> (To4 (IP r) \<noteq> None)"
  shows "dialTFO os netw (Some l) (Some r) w = (Return (Inl ErrMismatchedAddressFamily), w)"
proof -
  have "sliceToArray 4 (IP r) \<noteq> None" "sliceToArray 16 (IP r) \<noteq> None \<or> To4 (IP r) \<noteq> None"
    using assms(1) by (auto simp: sliceToArray_def To4_def)
  then show ?thesis
    using assms(2) by (auto simp: dialTFO_def Let_def split: option.splits)
qed

theorem dialTFO_family_mismatch_witness:
  "dialTFO os_ok ''tcp'' (Some addr4) (Some addr6) [] =
     (Return (Inl ErrMismatchedAddressFamily), [])
   \<and> dialTFO os_ok ''tcp'' (Some addr6) (Some addr4) [] =
     (Return (Inl ErrMismatchedAddressFamily), [])"
  using dialTFO_family_mismatch [of addr6 addr4 os_ok "''tcp''" "[]"]
        dialTFO_family_mismatch [of addr4 addr6 os_ok "''tcp''" "[]"]
  by (simp add: To4_addr4 To4_addr6) (simp add: addr4_def addr6_def)

text \<open>
  Claim C6, on the code. \<open>dialTFO\<close> returns the error of a failed \<open>TCP_NODELAY\<close> setsockopt
  (EINVAL, 22) and of a failed bind (EADDRINUSE, 48) on descriptor 3 without closing it, and
  \<open>listenTFO\<close> returns the error of a failed \<open>TCP_FASTOPEN\<close> setsockopt together with the
  open listener 4: the traces end with the failed call and hold no \<open>Close\<close> and no
  \<open>LnClose\<close>.
\<close>

theorem dialTFO_listenTFO_leak:
  "dialTFO (os_fail (SetsockoptInt 3 IPPROTO_TCP TCP_NODELAY 1) (Errno 22))
      ''tcp'' None (Some addr4) [] =
     (Return (Inl (SyscallError ''setsockopt'' (Errno 22))),
      [(Socket AF_INET SOCK_STREAM IPPROTO_TCP, (3, None)), (CloseOnExec 3, (0, None)),
       (SetNonblock 3 True, (0, None)),
       (SetsockoptInt 3 IPPROTO_TCP TCP_NODELAY 1, (0, Some (Errno 22)))])
   \<and> dialTFO (os_fail (Bind 3 (SockaddrInet4 80 [127, 0, 0, 1])) (Errno 48))
      ''tcp'' (Some addr4) (Some addr4) [] =
     (Return (Inl (SyscallError ''bind'' (Errno 48))),
      [(Socket AF_INET SOCK_STREAM IPPROTO_TCP, (3, None)), (CloseOnExec 3, (0, None)),
       (SetNonblock 3 True, (0, None)),
       (SetsockoptInt 3 IPPROTO_TCP TCP_NODELAY 1, (0, None)),
       (Bind 3 (SockaddrInet4 80 [127, 0, 0, 1]), (0, Some (Errno 48)))])
   \<and> listenTFO (os_fail (SetsockoptInt 4 IPPROTO_TCP TCP_FASTOPEN 1) (Errno 22))
      ''tcp'' ''127.0.0.1:0'' [] =
     (Return (Some 4, Some (Errno 22)),
      [(Listen ''tcp'' ''127.0.0.1:0'', (4, None)), (LnSyscallConn 4, (0, None)),
       (RawControl 4, (0, None)),
       (SetsockoptInt 4 IPPROTO_TCP TCP_FASTOPEN 1, (0, Some (Errno 22)))])"
  by (simp add: dialTFO_def To4_def Let_def sliceToArray_def addr4_def socket_def sys_simp
        os_ok_def os_fail_def setIPv6Only_def setNoDelay_def SetTFODialer_def AF_INET_def
        AF_INET6_def wrapSyscallError_def listenTFO_def SetTFOListener_def)

lemma socket_ok:
  assumes "socket os d w = ((sfd, None), w1)"
  shows "\<exists>r1 r2 r3. w1 = w @ [(Socket d SOCK_STREAM IPPROTO_TCP, r1), (CloseOnExec sfd, r2),
                                (SetNonblock sfd True, r3)]"
  using assms
  by (auto simp: socket_def sys_simp Let_def split: prod.splits option.splits)

lemma setIPv6Only_trace:
  assumes "setIPv6Only os sfd d v w = (e, w2)"
  shows "w2 = w \<or> (\<exists>r. w2 = w @ [(SetsockoptInt sfd IPPROTO_IPV6 IPV6_V6ONLY v, r)])"
  using assms
  by (auto simp: setIPv6Only_def sys_simp split: if_splits)

lemma setNoDelay_ok:
  assumes "setNoDelay os sfd v w = (None, w3)"
  shows "\<exists>k. w3 = w @ [(SetsockoptInt sfd IPPROTO_TCP TCP_NODELAY v, (k, None))]"
  using assms
  by (cases "os w (SetsockoptInt sfd IPPROTO_TCP TCP_NODELAY v)")
     (auto simp: setNoDelay_def sys_simp)

lemma dialTFO_ok_steps:
  assumes "dialTFO os netw la ra w = (Return (Inr c), w')"
  shows "\<exists>d v w1 w2 w3 e2.
           socket os d w = ((fd c, None), w1)
         \<and> setIPv6Only os (fd c) d v w1 = (e2, w2)
         \<and> setNoDelay os (fd c) 1 w2 = (None, w3)
         \<and> (w' = w3 \<or> (\<exists>r. w' = w3 @ [(Bind (fd c) (lsockaddr c), r)]))"
  using assms
  by (auto simp: dialTFO_def Let_def SetTFODialer_def sys_simp
           split: option.splits outcome.splits sum.splits prod.splits if_splits)
     blast+

text \<open>
  Claim C10. Whatever the caller passes, a dial that returns a connection has made, on the
  descriptor of that connection, exactly one \<open>TCP_NODELAY\<close> setsockopt call, with the value
  1, and that call succeeded.
\<close>

theorem dialTFO_sets_nodelay:
  assumes "dialTFO os netw la ra w = (Return (Inr c), w')"
  shows "\<exists>pre k post.
           since w w' = pre @ [(SetsockoptInt (fd c) IPPROTO_TCP TCP_NODELAY 1, (k, None))] @ post
         \<and> (\<forall>x \<in> set (calls (pre @ post)).
               \<forall>v. x \<noteq> SetsockoptInt (fd c) IPPROTO_TCP TCP_NODELAY v)"
proof -
  from dialTFO_ok_steps [OF assms] obtain d v w1 w2 w3 e2 where
    s: "socket os d w = ((fd c, None), w1)"
    and i: "setIPv6Only os (fd c) d v w1 = (e2, w2)"
    and n: "setNoDelay os (fd c) 1 w2 = (None, w3)"
    and b: "w' = w3 \<or> (\<exists>r. w' = w3 @ [(Bind (fd c) (lsockaddr c), r)])"
    by blast
  from socket_ok [OF s] obtain r1 r2 r3 where
    w1: "w1 = w @ [(Socket d SOCK_STREAM IPPROTO_TCP, r1), (CloseOnExec (fd c), r2),
                   (SetNonblock (fd c) True, r3)]" by blast
  from setIPv6Only_trace [OF i] obtain v6 where
    w2: "w2 = w1 @ v6"
    and v6: "v6 = [] \<or> (\<exists>r. v6 = [(SetsockoptInt (fd c) IPPROTO_IPV6 IPV6_V6ONLY v, r)])"
    by auto
  from setNoDelay_ok [OF n] obtain k where
    w3: "w3 = w2 @ [(SetsockoptInt (fd c) IPPROTO_TCP TCP_NODELAY 1, (k, None))]" by blast
  from b obtain post where
    w': "w' = w3 @ post"
    and post: "post = [] \<or> (\<exists>r. post = [(Bind (fd c) (lsockaddr c), r)])"
    by auto
  let ?pre = "[(Socket d SOCK_STREAM IPPROTO_TCP, r1), (CloseOnExec (fd c), r2),
               (SetNonblock (fd c) True, r3)] @ v6"
  have "since w w' =
          ?pre @ [(SetsockoptInt (fd c) IPPROTO_TCP TCP_NODELAY 1, (k, None))] @ post"
    by (simp add: w' w3 w2 w1 since_def)
  moreover have "\<forall>x \<in> set (calls (?pre @ post)).
                   \<forall>v. x \<noteq> SetsockoptInt (fd c) IPPROTO_TCP TCP_NODELAY v"
    using v6 post by (auto simp: calls_def IPPROTO_IPV6_def IPPROTO_TCP_def)
  ultimately show ?thesis by blast
qed

theorem dialTFO_sets_nodelay_witness:
  "since [] (snd (dialTFO os_ok ''tcp6'' (Some addr6) (Some addr6) [])) =
     [(Socket AF_INET6 SOCK_STREAM IPPROTO_TCP, (3, None)), (CloseOnExec 3, (0, None)),
      (SetNonblock 3 True, (0, None)), (SetsockoptInt 3 IPPROTO_IPV6 IPV6_V6ONLY 1, (0, None)),
      (SetsockoptInt 3 IPPROTO_TCP TCP_NODELAY 1, (0, None)),
      (Bind 3 (SockaddrInet6 80 (IP addr6)), (0, None))]"
proof -
  let ?c = "\<lparr>fd = 3, f = 3, connected = False, network = ''tcp6'', laddr = Some addr6,
             raddr = Some addr6, lsockaddr = SockaddrInet6 80 (IP addr6),
             rsockaddr = SockaddrInet6 80 (IP addr6)\<rparr>"
  let ?t = "[(Socket AF_INET6 SOCK_STREAM IPPROTO_TCP, (3, None)), (CloseOnExec 3, (0, None)),
      (SetNonblock 3 True, (0, None)), (SetsockoptInt 3 IPPROTO_IPV6 IPV6_V6ONLY 1, (0, None)),
      (SetsockoptInt 3 IPPROTO_TCP TCP_NODELAY 1, (0, None)),
      (Bind 3 (SockaddrInet6 80 (IP addr6)), (0, None))]"
  have h: "dialTFO os_ok ''tcp6'' (Some addr6) (Some addr6) [] = (Return (Inr ?c), ?t)"
    by (simp add: dialTFO_def To4_def Let_def isZeros_def sliceToArray_def addr6_def socket_def
          sys_simp os_ok_def setIPv6Only_def setNoDelay_def SetTFODialer_def AF_INET_def
          AF_INET6_def)
  from dialTFO_sets_nodelay [OF h]
  obtain pre k post where
    "since [] ?t = pre @ [(SetsockoptInt (fd ?c) IPPROTO_TCP TCP_NODELAY 1, (k, None))] @ post"
    by blast
  with h show ?thesis
    by (simp add: since_def)
qed

subsection \<open>The connect strategy\<close>

declare RawWrite_loop.simps [simp del]

lemma RawWrite_loop_done: "RawWrite_loop os c b ((n, True), w) = (None, (n, True), w)"
  by (subst RawWrite_loop.simps) (simp add: connect_closure_def)

text \<open>The loop of \<open>rawConn.Write\<close> calls the closure once, or twice around one wait.\<close>

lemma RawWrite_loop_start:
  "RawWrite_loop os c b ((n, False), w) =
     (let r = os w (Connectx (fd c) 0 None (rsockaddr c) b);
          w1 = w @ [(Connectx (fd c) 0 None (rsockaddr c) b, r)]
      in if snd r = Some EINPROGRESS
         then (snd (os w1 (WaitWrite (f c))), (fst r, True),
               w1 @ [(WaitWrite (f c), os w1 (WaitWrite (f c)))])
         else (None, (fst r, True), w1))"
  apply (subst RawWrite_loop.simps)
  apply (cases "os w (Connectx (fd c) 0 None (rsockaddr c) b)")
  apply (simp add: connect_closure_def sys_simp Let_def RawWrite_loop_done
           split: prod.splits option.splits)
  done

lemma rawConn_Write_result:
  assumes "rawConn_Write os c b ((0, False), w) = (perr, (n, d), w2)"
  shows "\<exists>ext. w2 = w @ ext \<and>
           (calls ext = [PrepareWrite (f c)] \<and> perr \<noteq> None
            \<or> (calls ext = [PrepareWrite (f c), Connectx (fd c) 0 None (rsockaddr c) b]
                  \<and> perr = None
                \<or> calls ext = [PrepareWrite (f c), Connectx (fd c) 0 None (rsockaddr c) b,
                                WaitWrite (f c)])
               \<and> (\<exists>e. (Connectx (fd c) 0 None (rsockaddr c) b, (n, e)) \<in> set ext))"
proof -
  obtain k1 e1 where r1: "os w (PrepareWrite (f c)) = (k1, e1)"
    by (cases "os w (PrepareWrite (f c))")
  show ?thesis
  proof (cases e1)
    case (Some e)
    with assms r1 show ?thesis
      by (auto simp: rawConn_Write_def sys_simp calls_def)
  next
    case None
    let ?w1 = "w @ [(PrepareWrite (f c), (k1, None))]"
    obtain k2 e2 where r2: "os ?w1 (Connectx (fd c) 0 None (rsockaddr c) b) = (k2, e2)"
      by (cases "os ?w1 (Connectx (fd c) 0 None (rsockaddr c) b)")
    show ?thesis
    proof (cases "e2 = Some EINPROGRESS")
      case True
      with assms r1 r2 None show ?thesis
        by (simp add: rawConn_Write_def sys_simp calls_def RawWrite_loop_start Let_def) auto
    next
      case False
      with assms r1 r2 None show ?thesis
        by (simp add: rawConn_Write_def sys_simp calls_def RawWrite_loop_start Let_def) auto
    qed
  qed
qed

text \<open>
  One invocation of \<open>connect\<close> leaves the handle as it is and extends the world by one of
  the sequences of \<open>connect_shapes\<close>; when it returns no error, the count it returns is the
  one \<open>Connectx\<close> replied.
\<close>

lemma connect_result:
  assumes "connect os b (c, w) = (r, c', w')"
  shows "c' = c \<and> (\<exists>ext. w' = w @ ext \<and> calls ext \<in> set (connect_shapes c b)
           \<and> (snd r = None \<longrightarrow>
                (\<exists>e. (Connectx (fd c) 0 None (rsockaddr c) b, (fst r, e)) \<in> set ext)))"
proof -
  obtain k0 e0 where r0: "os w (FileSyscallConn (f c)) = (k0, e0)"
    by (cases "os w (FileSyscallConn (f c))")
  show ?thesis
  proof (cases e0)
    case (Some e)
    with assms r0 show ?thesis
      by (auto simp: connect_def sys_simp calls_def connect_shapes_def Let_def)
  next
    case None
    let ?w1 = "w @ [(FileSyscallConn (f c), (k0, None))]"
    obtain perr n d w2 where rw: "rawConn_Write os c b ((0, False), ?w1) = (perr, (n, d), w2)"
      by (metis prod.exhaust)
    from rawConn_Write_result [OF rw] obtain ext where
      w2: "w2 = ?w1 @ ext"
      and ext: "calls ext = [PrepareWrite (f c)] \<and> perr \<noteq> None
            \<or> (calls ext = [PrepareWrite (f c), Connectx (fd c) 0 None (rsockaddr c) b]
                  \<and> perr = None
                \<or> calls ext = [PrepareWrite (f c), Connectx (fd c) 0 None (rsockaddr c) b,
                                WaitWrite (f c)])
               \<and> (\<exists>e. (Connectx (fd c) 0 None (rsockaddr c) b, (n, e)) \<in> set ext)"
      by blast
    show ?thesis
    proof (cases perr)
      case (Some pe)
      with assms r0 None rw w2 ext show ?thesis
        by (auto simp: connect_def sys_simp calls_def connect_shapes_def Let_def)
    next
      case perr_None: None
      obtain k3 e3 where r3: "os w2 (GetSocketError (fd c) ''connectx'') = (k3, e3)"
        by (cases "os w2 (GetSocketError (fd c) ''connectx'')")
      show ?thesis
      proof (cases e3)
        case (Some e)
        with assms r0 None rw w2 ext perr_None r3 show ?thesis
          by (auto simp: connect_def sys_simp calls_def connect_shapes_def Let_def
                getSocketError_def)
      next
        case e3_None: None
        with assms r0 None rw w2 ext perr_None r3 show ?thesis
          by (auto simp: connect_def sys_simp calls_def connect_shapes_def Let_def
                getSocketError_def getLocalAddr_def)
      qed
    qed
  qed
qed

subsection \<open>Read, ReadFrom and Write, unfolded\<close>

lemma Lock_simp: "Lock os c w = w @ [(MuLock (fd c), os w (MuLock (fd c)))]"
  by (simp add: Lock_def sys_simp)

lemma Unlock_simp: "Unlock os c w = w @ [(MuUnlock (fd c), os w (MuUnlock (fd c)))]"
  by (simp add: Unlock_def sys_simp)

lemma Read_unconnected:
  assumes "\<not> connected c"
    and "connect os [] (c, Lock os c w) = ((k, cerr), cc, cw)"
  shows "Read os b (c, w) =
           (case cerr of
              Some e \<Rightarrow> ((0, Some e), c, Unlock os c cw)
            | None \<Rightarrow>
                (os (Unlock os c cw) (FileRead (f c) (length b)), c\<lparr>connected := True\<rparr>,
                 Unlock os c cw
                   @ [(FileRead (f c) (length b), os (Unlock os c cw) (FileRead (f c) (length b)))]))"
proof -
  from connect_result [OF assms(2)] have "cc = c" by simp
  with assms show ?thesis
    by (cases cerr) (simp_all add: Read_def Let_def Unlock_simp sys_simp)
qed

lemma ReadFrom_unconnected:
  assumes "\<not> connected c"
    and "connect os [] (c, Lock os c w) = ((k, cerr), cc, cw)"
  shows "ReadFrom os (c, w) =
           (case cerr of
              Some e \<Rightarrow> ((0, Some e), c, Unlock os c cw)
            | None \<Rightarrow>
                (os (Unlock os c cw) (FileReadFrom (f c)), c\<lparr>connected := True\<rparr>,
                 Unlock os c cw
                   @ [(FileReadFrom (f c), os (Unlock os c cw) (FileReadFrom (f c)))]))"
proof -
  from connect_result [OF assms(2)] have "cc = c" by simp
  with assms show ?thesis
    by (cases cerr) (simp_all add: ReadFrom_def Let_def Unlock_simp sys_simp)
qed

lemma Write_unconnected:
  assumes "\<not> connected c"
    and "connect os b (c, Lock os c w) = ((k, cerr), cc, cw)"
  shows "Write os b (c, w) = ((k, cerr), c\<lparr>connected := (cerr = None)\<rparr>, Unlock os c cw)"
proof -
  from connect_result [OF assms(2)] have cc: "cc = c" by simp
  have keep: "c\<lparr>connected := False\<rparr> = c"
    using assms(1) by simp
  show ?thesis
    using assms keep by (cases cerr) (simp_all add: Write_def Let_def cc Unlock_simp)
qed

lemma Read_connected:
  assumes "connected c"
  shows "Read os b (c, w) =
           (os (Unlock os c (Lock os c w)) (FileRead (f c) (length b)), c,
            Unlock os c (Lock os c w)
              @ [(FileRead (f c) (length b),
                  os (Unlock os c (Lock os c w)) (FileRead (f c) (length b)))])"
  using assms by (simp add: Read_def Let_def sys_simp)

lemma ReadFrom_connected:
  assumes "connected c"
  shows "ReadFrom os (c, w) =
           (os (Unlock os c (Lock os c w)) (FileReadFrom (f c)), c,
            Unlock os c (Lock os c w)
              @ [(FileReadFrom (f c), os (Unlock os c (Lock os c w)) (FileReadFrom (f c)))])"
  using assms by (simp add: ReadFrom_def Let_def sys_simp)

lemma Write_connected:
  assumes "connected c"
  shows "Write os b (c, w) =
           (os (Unlock os c (Lock os c w)) (FileWrite (f c) b), c,
            Unlock os c (Lock os c w)
              @ [(FileWrite (f c) b, os (Unlock os c (Lock os c w)) (FileWrite (f c) b))])"
  using assms by (simp add: Write_def Let_def sys_simp)

lemma Close_conn_simp:
  "snd (Close_conn os (c, w)) = (c, w @ [(FileClose (f c), os w (FileClose (f c)))])"
  by (cases "os w (FileClose (f c))") (simp add: Close_conn_def sys_simp split: option.splits)

lemma calls_simps:
  "calls [] = []" "calls (x # xs) = fst x # calls xs" "calls (xs @ ys) = calls xs @ calls ys"
  by (simp_all add: calls_def)

subsection \<open>A failed connectx\<close>

text \<open>
  \<open>EINPROGRESS\<close> from \<open>Connectx\<close> is not an error: the closure returns false,
  \<open>rawConn.Write\<close> waits for writability and calls it again, and \<open>connect\<close> goes on to
  \<open>getSocketError\<close>.
\<close>

lemma connect_in_progress:
  "connect (os_fail (Connectx 3 0 None (SockaddrInet4 80 [127, 0, 0, 1]) [1, 2, 3]) EINPROGRESS)
      [1, 2, 3] (conn0, []) =
     ((0, None), conn0,
      [(FileSyscallConn 3, (0, None)), (PrepareWrite 3, (0, None)),
       (Connectx 3 0 None (SockaddrInet4 80 [127, 0, 0, 1]) [1, 2, 3], (0, Some EINPROGRESS)),
       (WaitWrite 3, (0, None)),
       (GetSocketError 3 ''connectx'', (0, None)), (GetLocalAddr 3, (0, None))])"
  by (simp add: connect_def rawConn_Write_def RawWrite_loop_start getSocketError_def
        getLocalAddr_def sys_simp Let_def os_fail_def os_ok_def conn0_def)

text \<open>
  Claim C5, on the code. \<open>Connectx\<close> fails with ENETUNREACH (51), which is not
  \<open>EINPROGRESS\<close>, on a three-byte payload; everything else succeeds. \<open>connect\<close> returns 0
  bytes and no error, and \<open>Write\<close> marks the handle connected: the error of the primitive
  is returned nowhere, neither bare nor wrapped with the name connectx.
\<close>

theorem connect_drops_connectx_error:
  "connect (os_fail (Connectx 3 0 None (SockaddrInet4 80 [127, 0, 0, 1]) [1, 2, 3]) (Errno 51))
      [1, 2, 3] (conn0, []) =
     ((0, None), conn0,
      [(FileSyscallConn 3, (0, None)), (PrepareWrite 3, (0, None)),
       (Connectx 3 0 None (SockaddrInet4 80 [127, 0, 0, 1]) [1, 2, 3], (0, Some (Errno 51))),
       (GetSocketError 3 ''connectx'', (0, None)), (GetLocalAddr 3, (0, None))])
   \<and> fst (Write (os_fail (Connectx 3 0 None (SockaddrInet4 80 [127, 0, 0, 1]) [1, 2, 3]) (Errno 51))
      [1, 2, 3] (conn0, [])) = (0, None)
   \<and> connected (fst (snd (Write
        (os_fail (Connectx 3 0 None (SockaddrInet4 80 [127, 0, 0, 1]) [1, 2, 3]) (Errno 51))
        [1, 2, 3] (conn0, []))))"
  by (simp add: Write_def Lock_simp Unlock_simp connect_def rawConn_Write_def RawWrite_loop_start
        getSocketError_def getLocalAddr_def sys_simp Let_def os_fail_def os_ok_def conn0_def
        EINPROGRESS_def)

subsection \<open>The first write\<close>

text \<open>
  Claim C1. A \<open>Write\<close> of \<open>b\<close> on a handle that is not connected locks the mutex, runs
  one \<open>connect\<close> with \<open>b\<close> as its payload and unlocks; it returns what \<open>connect\<close>
  returned, marks the handle connected exactly when \<open>connect\<close> returned no error, and on
  success the count returned is the one \<open>Connectx\<close> replied for \<open>b\<close>. On a connected
  handle it locks, unlocks and returns what \<open>c.f.Write(b)\<close> returns. The witness has a
  handshake that takes 2 of 5 bytes.
\<close>

theorem Write_deferred_connect:
  assumes "Write os b (c, w) = ((n, err), c', w')"
  shows "(\<not> connected c \<longrightarrow>
            fst (connect os b (c, Lock os c w)) = (n, err)
          \<and> c' = c\<lparr>connected := (err = None)\<rparr>
          \<and> (\<exists>cs. cs \<in> set (connect_shapes c b)
                \<and> calls (since w w') = MuLock (fd c) # cs @ [MuUnlock (fd c)])
          \<and> (err = None \<longrightarrow>
               (\<exists>e. (Connectx (fd c) 0 None (rsockaddr c) b, (n, e)) \<in> set (since w w'))))
       \<and> (connected c \<longrightarrow>
            c' = c
          \<and> calls (since w w') = [MuLock (fd c), MuUnlock (fd c), FileWrite (f c) b]
          \<and> last w' = (FileWrite (f c) b, (n, err)))"
proof (cases "connected c")
  case True
  with assms show ?thesis
    by (auto simp: Write_def Lock_simp Unlock_simp sys_simp Let_def since_def calls_def)
next
  case False
  obtain n0 e0 c1 w2 where cr: "connect os b (c, Lock os c w) = ((n0, e0), c1, w2)"
    by (metis prod.exhaust)
  from connect_result [OF cr] obtain ext where
    c1: "c1 = c" and w2: "w2 = Lock os c w @ ext"
    and sh: "calls ext \<in> set (connect_shapes c b)"
    and cx: "e0 = None \<longrightarrow>
               (\<exists>e. (Connectx (fd c) 0 None (rsockaddr c) b, (n0, e)) \<in> set ext)"
    by auto
  have keep: "c\<lparr>connected := False\<rparr> = c"
    using False by simp
  have W: "Write os b (c, w) = ((n0, e0), c\<lparr>connected := (e0 = None)\<rparr>, Unlock os c w2)"
    using False keep by (cases e0) (simp_all add: Write_def Let_def cr c1 Unlock_simp)
  with assms have res: "n = n0" "err = e0" "c' = c\<lparr>connected := (err = None)\<rparr>"
    and w': "w' = Unlock os c w2"
    by auto
  have tr: "since w w' = (MuLock (fd c), os w (MuLock (fd c))) # ext
              @ [(MuUnlock (fd c), os w2 (MuUnlock (fd c)))]"
    by (simp add: w' w2 Lock_simp Unlock_simp since_def)
  have a: "fst (connect os b (c, Lock os c w)) = (n, err)"
    by (simp add: cr res)
  have b: "calls (since w w') = MuLock (fd c) # calls ext @ [MuUnlock (fd c)]"
    by (simp add: tr calls_def)
  have d: "err = None \<longrightarrow>
      (\<exists>e. (Connectx (fd c) 0 None (rsockaddr c) b, (n, e)) \<in> set (since w w'))"
    using cx res(1,2) tr by auto
  from a res(3) sh b d False show ?thesis
    by blast
qed

theorem Write_deferred_connect_witness:
  "Write os_short [1, 2, 3, 4, 5] (conn0, []) =
     ((2, None), conn0\<lparr>connected := True\<rparr>,
      [(MuLock 3, (0, None)), (FileSyscallConn 3, (0, None)), (PrepareWrite 3, (0, None)),
       (Connectx 3 0 None (SockaddrInet4 80 [127, 0, 0, 1]) [1, 2, 3, 4, 5], (2, None)),
       (GetSocketError 3 ''connectx'', (0, None)), (GetLocalAddr 3, (0, None)),
       (MuUnlock 3, (0, None))])
   \<and> fst (connect os_short [1, 2, 3, 4, 5] (conn0, Lock os_short conn0 [])) = (2, None)
   \<and> Write os_ok [1, 2, 3] (conn0\<lparr>connected := True\<rparr>, []) =
     ((3, None), conn0\<lparr>connected := True\<rparr>,
      [(MuLock 3, (0, None)), (MuUnlock 3, (0, None)), (FileWrite 3 [1, 2, 3], (3, None))])"
proof -
  have h1: "Write os_short [1, 2, 3, 4, 5] (conn0, []) =
     ((2, None), conn0\<lparr>connected := True\<rparr>,
      [(MuLock 3, (0, None)), (FileSyscallConn 3, (0, None)), (PrepareWrite 3, (0, None)),
       (Connectx 3 0 None (SockaddrInet4 80 [127, 0, 0, 1]) [1, 2, 3, 4, 5], (2, None)),
       (GetSocketError 3 ''connectx'', (0, None)), (GetLocalAddr 3, (0, None)),
       (MuUnlock 3, (0, None))])"
    by (simp add: Write_def Lock_simp Unlock_simp connect_def rawConn_Write_def
          RawWrite_loop_start getSocketError_def getLocalAddr_def sys_simp Let_def os_short_def
          os_ok_def conn0_def EINPROGRESS_def)
  have h2: "Write os_ok [1, 2, 3] (conn0\<lparr>connected := True\<rparr>, []) =
     ((3, None), conn0\<lparr>connected := True\<rparr>,
      [(MuLock 3, (0, None)), (MuUnlock 3, (0, None)), (FileWrite 3 [1, 2, 3], (3, None))])"
    by (simp add: Write_def Lock_simp Unlock_simp sys_simp Let_def os_ok_def conn0_def)
  have u: "\<not> connected conn0"
    by (simp add: conn0_def)
  from Write_deferred_connect [OF h1] u
  have a: "fst (connect os_short [1, 2, 3, 4, 5] (conn0, Lock os_short conn0 [])) = (2, None)"
    by blast
  from Write_deferred_connect [OF h2]
  have b: "last [(MuLock 3, (0, None)), (MuUnlock 3, (0, None)), (FileWrite 3 [1, 2, 3], (3, None))]
             = (FileWrite (f (conn0\<lparr>connected := True\<rparr>)) [1, 2, 3], (3, None))"
    by simp
  from h1 h2 a b show ?thesis by simp
qed

subsection \<open>The first read\<close>

text \<open>
  Claim C3. On a handle that is not connected, \<open>Read\<close> and \<open>ReadFrom\<close> lock the mutex and
  run one \<open>connect\<close> with the empty payload. When it fails they unlock and return 0 and its
  error, with the handle as it was and nothing read. When it succeeds they mark the handle
  connected, unlock, and then read from the file and return what the file returns.
\<close>

theorem Read_connects_first:
  assumes "\<not> connected c"
    and "connect os [] (c, Lock os c w) = ((k, cerr), cc, cw)"
    and "Read os b (c, w) = (r, c', w')"
    and "ReadFrom os (c, w) = (r2, c2, w2)"
  shows "\<exists>cs. cs \<in> set (connect_shapes c [])
         \<and> (cerr \<noteq> None \<longrightarrow>
               r = (0, cerr) \<and> c' = c
             \<and> calls (since w w') = MuLock (fd c) # cs @ [MuUnlock (fd c)]
             \<and> r2 = (0, cerr) \<and> c2 = c
             \<and> calls (since w w2) = MuLock (fd c) # cs @ [MuUnlock (fd c)])
         \<and> (cerr = None \<longrightarrow>
               c' = c\<lparr>connected := True\<rparr>
             \<and> calls (since w w') =
                 MuLock (fd c) # cs @ [MuUnlock (fd c), FileRead (f c) (length b)]
             \<and> last w' = (FileRead (f c) (length b), r)
             \<and> c2 = c\<lparr>connected := True\<rparr>
             \<and> calls (since w w2) = MuLock (fd c) # cs @ [MuUnlock (fd c), FileReadFrom (f c)]
             \<and> last w2 = (FileReadFrom (f c), r2))"
proof -
  from connect_result [OF assms(2)] obtain ext where
    cw: "cw = Lock os c w @ ext" and sh: "calls ext \<in> set (connect_shapes c [])"
    by auto
  have u: "since w (Unlock os c cw) =
             (MuLock (fd c), os w (MuLock (fd c))) # ext @ [(MuUnlock (fd c), os cw (MuUnlock (fd c)))]"
    by (simp add: cw Lock_simp Unlock_simp since_def)
  have u2: "\<And>x. since w (Unlock os c cw @ [x]) =
             (MuLock (fd c), os w (MuLock (fd c))) # ext @ [(MuUnlock (fd c), os cw (MuUnlock (fd c))), x]"
    by (simp add: cw Lock_simp Unlock_simp since_def)
  show ?thesis
  proof (cases cerr)
    case None
    from Read_unconnected [OF assms(1,2), of b] assms(3) None
    have R: "c' = c\<lparr>connected := True\<rparr>"
        "w' = Unlock os c cw @ [(FileRead (f c) (length b), r)]"
      by auto
    from ReadFrom_unconnected [OF assms(1,2)] assms(4) None
    have F: "c2 = c\<lparr>connected := True\<rparr>"
        "w2 = Unlock os c cw @ [(FileReadFrom (f c), r2)]"
      by auto
    have "calls (since w w') =
            MuLock (fd c) # calls ext @ [MuUnlock (fd c), FileRead (f c) (length b)]"
      by (simp add: R(2) u2 calls_def)
    moreover have "calls (since w w2) =
            MuLock (fd c) # calls ext @ [MuUnlock (fd c), FileReadFrom (f c)]"
      by (simp add: F(2) u2 calls_def)
    moreover have "last w' = (FileRead (f c) (length b), r)" "last w2 = (FileReadFrom (f c), r2)"
      by (simp_all add: R(2) F(2))
    ultimately show ?thesis
      using None R(1) F(1) sh by blast
  next
    case (Some e)
    from Read_unconnected [OF assms(1,2), of b] assms(3) Some
    have R: "r = (0, cerr)" "c' = c" "w' = Unlock os c cw"
      by auto
    from ReadFrom_unconnected [OF assms(1,2)] assms(4) Some
    have F: "r2 = (0, cerr)" "c2 = c" "w2 = Unlock os c cw"
      by auto
    have "calls (since w w') = MuLock (fd c) # calls ext @ [MuUnlock (fd c)]"
      "calls (since w w2) = MuLock (fd c) # calls ext @ [MuUnlock (fd c)]"
      by (simp_all add: R(3) F(3) u calls_def)
    then show ?thesis
      using Some R(1,2) F(1,2) sh by blast
  qed
qed

theorem Read_connects_first_witness:
  "Read os_ok [0, 0, 0, 0] (conn0, []) =
     ((4, None), conn0\<lparr>connected := True\<rparr>,
      [(MuLock 3, (0, None)), (FileSyscallConn 3, (0, None)), (PrepareWrite 3, (0, None)),
       (Connectx 3 0 None (SockaddrInet4 80 [127, 0, 0, 1]) [], (0, None)),
       (GetSocketError 3 ''connectx'', (0, None)), (GetLocalAddr 3, (0, None)),
       (MuUnlock 3, (0, None)), (FileRead 3 4, (4, None))])
   \<and> ReadFrom (os_fail (GetSocketError 3 ''connectx'') (Errno 61)) (conn0, []) =
     ((0, Some (Errno 61)), conn0,
      [(MuLock 3, (0, None)), (FileSyscallConn 3, (0, None)), (PrepareWrite 3, (0, None)),
       (Connectx 3 0 None (SockaddrInet4 80 [127, 0, 0, 1]) [], (0, None)),
       (GetSocketError 3 ''connectx'', (0, Some (Errno 61))),
       (MuUnlock 3, (0, None))])"
proof -
  let ?bad = "os_fail (GetSocketError 3 ''connectx'') (Errno 61)"
  have u: "\<not> connected conn0"
    by (simp add: conn0_def)
  have c1: "connect os_ok [] (conn0, Lock os_ok conn0 []) =
     ((0, None), conn0,
      [(MuLock 3, (0, None)), (FileSyscallConn 3, (0, None)), (PrepareWrite 3, (0, None)),
       (Connectx 3 0 None (SockaddrInet4 80 [127, 0, 0, 1]) [], (0, None)),
       (GetSocketError 3 ''connectx'', (0, None)), (GetLocalAddr 3, (0, None))])"
    by (simp add: Lock_simp connect_def rawConn_Write_def RawWrite_loop_start getSocketError_def
          getLocalAddr_def sys_simp Let_def os_ok_def conn0_def EINPROGRESS_def)
  have c2: "connect ?bad [] (conn0, Lock ?bad conn0 []) =
     ((0, Some (Errno 61)), conn0,
      [(MuLock 3, (0, None)), (FileSyscallConn 3, (0, None)), (PrepareWrite 3, (0, None)),
       (Connectx 3 0 None (SockaddrInet4 80 [127, 0, 0, 1]) [], (0, None)),
       (GetSocketError 3 ''connectx'', (0, Some (Errno 61)))])"
    by (simp add: Lock_simp connect_def rawConn_Write_def RawWrite_loop_start getSocketError_def
          getLocalAddr_def sys_simp Let_def os_fail_def os_ok_def conn0_def EINPROGRESS_def)
  obtain r c' w' where r1: "Read os_ok [0, 0, 0, 0] (conn0, []) = (r, c', w')"
    by (metis prod.exhaust)
  obtain r2 c2' w2 where f1: "ReadFrom os_ok (conn0, []) = (r2, c2', w2)"
    by (metis prod.exhaust)
  obtain r3 c3 w3 where r2: "Read ?bad [0, 0, 0, 0] (conn0, []) = (r3, c3, w3)"
    by (metis prod.exhaust)
  obtain r4 c4 w4 where f2: "ReadFrom ?bad (conn0, []) = (r4, c4, w4)"
    by (metis prod.exhaust)
  from Read_connects_first [OF u c1 r1 f1]
  have a: "c' = conn0\<lparr>connected := True\<rparr>" "last w' = (FileRead (f conn0) 4, r)"
    by auto
  from Read_connects_first [OF u c2 r2 f2]
  have b: "r4 = (0, Some (Errno 61))" "c4 = conn0"
    by auto
  have e1: "Read os_ok [0, 0, 0, 0] (conn0, []) =
     ((4, None), conn0\<lparr>connected := True\<rparr>,
      [(MuLock 3, (0, None)), (FileSyscallConn 3, (0, None)), (PrepareWrite 3, (0, None)),
       (Connectx 3 0 None (SockaddrInet4 80 [127, 0, 0, 1]) [], (0, None)),
       (GetSocketError 3 ''connectx'', (0, None)), (GetLocalAddr 3, (0, None)),
       (MuUnlock 3, (0, None)), (FileRead 3 4, (4, None))])"
    using a r1
    by (simp add: Read_unconnected [OF u c1] Unlock_simp os_ok_def) (simp add: conn0_def)
  have e2: "ReadFrom ?bad (conn0, []) =
     ((0, Some (Errno 61)), conn0,
      [(MuLock 3, (0, None)), (FileSyscallConn 3, (0, None)), (PrepareWrite 3, (0, None)),
       (Connectx 3 0 None (SockaddrInet4 80 [127, 0, 0, 1]) [], (0, None)),
       (GetSocketError 3 ''connectx'', (0, Some (Errno 61))),
       (MuUnlock 3, (0, None))])"
    using b f2
    by (simp add: ReadFrom_unconnected [OF u c2] Unlock_simp os_fail_def os_ok_def)
       (simp add: conn0_def)
  from e1 e2 show ?thesis by simp
qed

subsection \<open>How often connect runs\<close>

lemma invocations_append:
  "connect_invocations c (w @ ext) =
     connect_invocations c w + length (filter (\<lambda>x. x = FileSyscallConn (f c)) (calls ext))"
  by (simp add: connect_invocations_def calls_def)

lemma shapes_invoke_once:
  assumes "cs \<in> set (connect_shapes c b)"
  shows "length (filter (\<lambda>x. x = FileSyscallConn (f c)) cs) = 1"
  using assms by (auto simp: connect_shapes_def Let_def)

lemma step_connected:
  assumes "connected c"
  shows "fst (step os x (c, w)) = c
       \<and> connect_invocations c (snd (step os x (c, w))) = connect_invocations c w"
proof (cases x)
  case (OpRead b)
  with assms show ?thesis
    by (simp add: Read_connected Lock_simp Unlock_simp connect_invocations_def calls_def)
next
  case OpReadFrom
  with assms show ?thesis
    by (simp add: ReadFrom_connected Lock_simp Unlock_simp connect_invocations_def calls_def)
next
  case (OpWrite b)
  with assms show ?thesis
    by (simp add: Write_connected Lock_simp Unlock_simp connect_invocations_def calls_def)
next
  case OpClose
  then show ?thesis
    by (simp add: Close_conn_simp connect_invocations_def calls_def)
qed

lemma run_connected:
  assumes "connected c"
  shows "fst (run os ops (c, w)) = c
       \<and> connect_invocations c (snd (run os ops (c, w))) = connect_invocations c w"
proof (induction ops arbitrary: w)
  case Nil
  show ?case by simp
next
  case (Cons x xs)
  obtain w1 where s: "step os x (c, w) = (c, w1)"
    using step_connected [OF assms, of os x w] by (cases "step os x (c, w)") simp
  have "connect_invocations c w1 = connect_invocations c w"
    using step_connected [OF assms, of os x w] s by simp
  with Cons.IH [of w1] s show ?case by simp
qed

lemma step_unconnected:
  assumes "\<not> connected c" and "x \<noteq> OpClose"
  shows "connect_invocations c (snd (step os x (c, w))) = connect_invocations c w + 1
       \<and> fst (step os x (c, w)) =
           c\<lparr>connected := (snd (fst (connect os (payload x) (c, Lock os c w))) = None)\<rparr>"
proof -
  obtain k cerr cc cw where cr: "connect os (payload x) (c, Lock os c w) = ((k, cerr), cc, cw)"
    by (metis prod.exhaust)
  from connect_result [OF cr] obtain ext where
    cw: "cw = Lock os c w @ ext" and sh: "calls ext \<in> set (connect_shapes c (payload x))"
    by auto
  have one: "length (filter (\<lambda>x. x = FileSyscallConn (f c)) (calls ext)) = 1"
    using shapes_invoke_once [OF sh] .
  have n: "connect_invocations c cw = connect_invocations c w + 1"
    by (simp add: cw Lock_simp invocations_append calls_simps one)
  have keep: "c\<lparr>connected := False\<rparr> = c"
    using assms(1) by simp
  show ?thesis
  proof (cases x)
    case (OpRead b)
    with cr have cr': "connect os [] (c, Lock os c w) = ((k, cerr), cc, cw)" by simp
    show ?thesis
      using n keep OpRead cr
      by (cases cerr)
         (simp_all add: Read_unconnected [OF assms(1) cr'] Unlock_simp invocations_append calls_def)
  next
    case OpReadFrom
    with cr have cr': "connect os [] (c, Lock os c w) = ((k, cerr), cc, cw)" by simp
    show ?thesis
      using n keep OpReadFrom cr
      by (cases cerr)
         (simp_all add: ReadFrom_unconnected [OF assms(1) cr'] Unlock_simp invocations_append calls_def)
  next
    case (OpWrite b)
    with cr have cr': "connect os b (c, Lock os c w) = ((k, cerr), cc, cw)" by simp
    show ?thesis
      using n OpWrite cr
      by (simp add: Write_unconnected [OF assms(1) cr'] Unlock_simp invocations_append calls_def)
  next
    case OpClose
    with assms(2) show ?thesis by simp
  qed
qed

lemma step_keeps:
  "f (fst (step os x (c, w))) = f c \<and> fd (fst (step os x (c, w))) = fd c
   \<and> set (calls w) \<subseteq> set (calls (snd (step os x (c, w))))"
proof (cases "connected c")
  case True
  have "set (calls w) \<subseteq> set (calls (snd (step os x (c, w))))"
    using True
    by (cases x)
       (auto simp: Read_connected ReadFrom_connected Write_connected Close_conn_simp Lock_simp
          Unlock_simp calls_simps)
  with step_connected [OF True, of os x w] True show ?thesis by simp
next
  case False
  show ?thesis
  proof (cases "x = OpClose")
    case True
    then show ?thesis by (auto simp: Close_conn_simp calls_simps)
  next
    case nc: False
    obtain k cerr cc cw where cr: "connect os (payload x) (c, Lock os c w) = ((k, cerr), cc, cw)"
      by (metis prod.exhaust)
    from connect_result [OF cr] obtain ext where cw: "cw = Lock os c w @ ext"
      by auto
    have "set (calls w) \<subseteq> set (calls (snd (step os x (c, w))))"
    proof (cases x)
      case (OpRead b)
      with cr have cr': "connect os [] (c, Lock os c w) = ((k, cerr), cc, cw)" by simp
      show ?thesis
        using OpRead
        by (cases cerr)
           (auto simp: Read_unconnected [OF False cr'] cw Lock_simp Unlock_simp calls_simps)
    next
      case OpReadFrom
      with cr have cr': "connect os [] (c, Lock os c w) = ((k, cerr), cc, cw)" by simp
      show ?thesis
        using OpReadFrom
        by (cases cerr)
           (auto simp: ReadFrom_unconnected [OF False cr'] cw Lock_simp Unlock_simp calls_simps)
    next
      case (OpWrite b)
      with cr have cr': "connect os b (c, Lock os c w) = ((k, cerr), cc, cw)" by simp
      show ?thesis
        using OpWrite
        by (auto simp: Write_unconnected [OF False cr'] cw Lock_simp Unlock_simp calls_simps)
    next
      case OpClose
      with nc show ?thesis by simp
    qed
    with step_unconnected [OF False nc, of os w] show ?thesis by auto
  qed
qed

lemma run_keeps:
  "f (fst (run os ops (c, w))) = f c \<and> fd (fst (run os ops (c, w))) = fd c
   \<and> set (calls w) \<subseteq> set (calls (snd (run os ops (c, w))))"
proof (induction ops arbitrary: c w)
  case Nil
  show ?case by simp
next
  case (Cons x xs)
  obtain c1 w1 where s: "step os x (c, w) = (c1, w1)"
    by (cases "step os x (c, w)")
  from step_keeps [of os x c w] s
  have k: "f c1 = f c" "fd c1 = fd c" "set (calls w) \<subseteq> set (calls w1)"
    by simp_all
  from Cons.IH [of c1 w1] k s show ?case
    by auto
qed

lemma successes_append:
  "successful_connects c (w @ ext) = successful_connects c w + successful_connects c ext"
  by (simp add: successful_connects_def)

lemma successes_none:
  assumes "GetLocalAddr (fd c) \<notin> set (calls ext)"
  shows "successful_connects c ext = 0"
proof -
  have "\<forall>x \<in> set ext. fst x \<noteq> GetLocalAddr (fd c)"
    using assms by (force simp: calls_def)
  then show ?thesis
    by (simp add: successful_connects_def filter_empty_conv)
qed

lemma successes_Cons:
  "successful_connects c (x # xs) =
     (if fst x = GetLocalAddr (fd c) \<and> snd (snd x) = None then 1 else 0) + successful_connects c xs"
  by (simp add: successful_connects_def)

lemma successes_Nil: "successful_connects c [] = 0"
  by (simp add: successful_connects_def)

lemma connect_successes:
  assumes "connect os b (c, w) = (r, c', w')"
  shows "successful_connects c w' = successful_connects c w + (if snd r = None then 1 else 0)"
proof -
  obtain k0 e0 where r0: "os w (FileSyscallConn (f c)) = (k0, e0)"
    by (cases "os w (FileSyscallConn (f c))")
  show ?thesis
  proof (cases e0)
    case (Some e)
    with assms r0 show ?thesis
      by (auto simp: connect_def sys_simp successes_append successes_Cons successes_Nil)
  next
    case None
    let ?w1 = "w @ [(FileSyscallConn (f c), (k0, None))]"
    obtain perr n d w2 where rw: "rawConn_Write os c b ((0, False), ?w1) = (perr, (n, d), w2)"
      by (metis prod.exhaust)
    from rawConn_Write_result [OF rw] obtain ext where
      w2: "w2 = ?w1 @ ext"
      and ext: "calls ext = [PrepareWrite (f c)]
            \<or> calls ext = [PrepareWrite (f c), Connectx (fd c) 0 None (rsockaddr c) b]
            \<or> calls ext = [PrepareWrite (f c), Connectx (fd c) 0 None (rsockaddr c) b,
                            WaitWrite (f c)]"
      by blast
    from ext have "GetLocalAddr (fd c) \<notin> set (calls ext)"
      by auto
    then have z: "successful_connects c w2 = successful_connects c w"
      by (simp add: w2 successes_append successes_Cons successes_Nil successes_none)
    show ?thesis
    proof (cases perr)
      case (Some pe)
      with assms r0 None rw z show ?thesis
        by (auto simp: connect_def sys_simp)
    next
      case perr_None: None
      obtain k3 e3 where r3: "os w2 (GetSocketError (fd c) ''connectx'') = (k3, e3)"
        by (cases "os w2 (GetSocketError (fd c) ''connectx'')")
      show ?thesis
      proof (cases e3)
        case (Some e)
        with assms r0 None rw z perr_None r3 show ?thesis
          by (auto simp: connect_def sys_simp getSocketError_def successes_append
                successes_Cons successes_Nil)
      next
        case e3_None: None
        obtain k4 e4 where r4:
          "os (w2 @ [(GetSocketError (fd c) ''connectx'', (k3, None))]) (GetLocalAddr (fd c)) = (k4, e4)"
          by (metis prod.exhaust)
        with assms r0 None rw z perr_None r3 e3_None show ?thesis
          by (auto simp: connect_def sys_simp getSocketError_def getLocalAddr_def
                successes_append successes_Cons successes_Nil)
      qed
    qed
  qed
qed

lemma step_successes:
  "successful_connects c (snd (step os x (c, w))) + (if connected c then 1 else 0) =
     successful_connects c w + (if connected (fst (step os x (c, w))) then 1 else 0)"
proof (cases "connected c")
  case True
  then show ?thesis
    by (cases x)
       (simp_all add: Read_connected ReadFrom_connected Write_connected Close_conn_simp
          Lock_simp Unlock_simp successes_append successes_Cons successes_Nil)
next
  case False
  show ?thesis
  proof (cases "x = OpClose")
    case True
    with False show ?thesis
      by (simp add: Close_conn_simp successes_append successes_Cons successes_Nil)
  next
    case nc: False
    obtain k cerr cc cw where cr: "connect os (payload x) (c, Lock os c w) = ((k, cerr), cc, cw)"
      by (metis prod.exhaust)
    from connect_successes [OF cr]
    have n: "successful_connects c cw = successful_connects c w + (if cerr = None then 1 else 0)"
      by (simp add: Lock_simp successes_append successes_Cons successes_Nil)
    have keep: "c\<lparr>connected := False\<rparr> = c"
      using False by simp
    show ?thesis
    proof (cases x)
      case (OpRead b)
      with cr have cr': "connect os [] (c, Lock os c w) = ((k, cerr), cc, cw)" by simp
      show ?thesis
        using n False OpRead
        by (cases cerr)
           (simp_all add: Read_unconnected [OF False cr'] Unlock_simp successes_append
              successes_Cons successes_Nil)
    next
      case OpReadFrom
      with cr have cr': "connect os [] (c, Lock os c w) = ((k, cerr), cc, cw)" by simp
      show ?thesis
        using n False OpReadFrom
        by (cases cerr)
           (simp_all add: ReadFrom_unconnected [OF False cr'] Unlock_simp successes_append
              successes_Cons successes_Nil)
    next
      case (OpWrite b)
      with cr have cr': "connect os b (c, Lock os c w) = ((k, cerr), cc, cw)" by simp
      show ?thesis
        using n False OpWrite
        by (cases cerr)
           (simp_all add: Write_unconnected [OF False cr'] Unlock_simp successes_append
              successes_Cons successes_Nil)
    next
      case OpClose
      with nc show ?thesis by simp
    qed
  qed
qed

lemma successes_fd:
  assumes "fd c' = fd c"
  shows "successful_connects c' w = successful_connects c w"
  using assms by (simp add: successful_connects_def)

lemma run_successes:
  "successful_connects c (snd (run os ops (c, w))) + (if connected c then 1 else 0) =
     successful_connects c w + (if connected (fst (run os ops (c, w))) then 1 else 0)"
proof (induction ops arbitrary: c w)
  case Nil
  show ?case by simp
next
  case (Cons x xs)
  obtain c1 w1 where s: "step os x (c, w) = (c1, w1)"
    by (cases "step os x (c, w)")
  from step_keeps [of os x c w] s have fd1: "fd c1 = fd c"
    by simp
  from step_successes [of c os x w] s
  have a: "successful_connects c w1 + (if connected c then 1 else 0) =
             successful_connects c w + (if connected c1 then 1 else 0)"
    by simp
  from Cons.IH [of c1 w1]
  have b: "successful_connects c (snd (run os xs (c1, w1))) + (if connected c1 then 1 else 0) =
             successful_connects c w1 + (if connected (fst (run os xs (c1, w1))) then 1 else 0)"
    by (simp add: successes_fd [OF fd1])
  from a b s show ?case
    by (simp split: if_splits)
qed


text \<open>
  Claim C2, as stated, fails. \<open>getSocketError\<close> reports ECONNREFUSED (61): the first
  \<open>Write\<close> returns that error, and the \<open>Read\<close> that follows invokes \<open>connect\<close> a second
  time.
\<close>

theorem connect_retried_after_failure:
  "snd (fst (Write (os_fail (GetSocketError 3 ''connectx'') (Errno 61)) [1, 2, 3] (conn0, [])))
     = Some (Errno 61)
   \<and> connect_invocations conn0
       (snd (run (os_fail (GetSocketError 3 ''connectx'') (Errno 61))
               [OpWrite [1, 2, 3], OpRead [0, 0, 0, 0]] (conn0, []))) = 2"
  by (simp add: Write_def Read_def Lock_simp Unlock_simp connect_def rawConn_Write_def
        RawWrite_loop_start getSocketError_def getLocalAddr_def sys_simp Let_def os_fail_def
        os_ok_def conn0_def EINPROGRESS_def connect_invocations_def calls_def)

text \<open>
  Claim C2, amended. Over any sequence of \<open>Read\<close>, \<open>ReadFrom\<close>, \<open>Write\<close> and
  \<open>Close\<close>, at most one invocation of \<open>connect\<close> returns without error. Once a handle
  is marked connected, no such sequence invokes \<open>connect\<close> again, and the handle stays as
  it is. On a handle that is not connected, each \<open>Read\<close>, \<open>ReadFrom\<close> and \<open>Write\<close>
  invokes \<open>connect\<close> exactly once, and the handle is marked connected exactly when that
  invocation returned no error: every failure is followed by a new attempt at the next
  operation.
\<close>

theorem connect_once_successful:
  "successful_connects c (snd (run os ops (c, w))) \<le> successful_connects c w + 1
   \<and> (connected c \<longrightarrow>
      fst (run os ops (c, w)) = c
    \<and> connect_invocations c (snd (run os ops (c, w))) = connect_invocations c w
    \<and> successful_connects c (snd (run os ops (c, w))) = successful_connects c w)
   \<and> (\<not> connected c \<and> x \<noteq> OpClose \<longrightarrow>
      connect_invocations c (snd (step os x (c, w))) = connect_invocations c w + 1
    \<and> fst (step os x (c, w)) =
        c\<lparr>connected := (snd (fst (connect os (payload x) (c, Lock os c w))) = None)\<rparr>)"
proof -
  have "successful_connects c (snd (run os ops (c, w))) \<le> successful_connects c w + 1"
    using run_successes [of c os ops w] by (simp split: if_splits)
  moreover have "connected c \<longrightarrow>
      successful_connects c (snd (run os ops (c, w))) = successful_connects c w"
  proof
    assume k: "connected c"
    then have "connected (fst (run os ops (c, w)))"
      using run_connected [of c os ops w] by simp
    with k run_successes [of c os ops w]
    show "successful_connects c (snd (run os ops (c, w))) = successful_connects c w"
      by simp
  qed
  ultimately show ?thesis
    using run_connected [of c os ops w] step_unconnected [of c x os w] by blast
qed

theorem connect_once_successful_witness:
  "connect_invocations conn0
     (snd (run os_ok [OpWrite [1, 2, 3], OpRead [0, 0, 0, 0], OpReadFrom, OpWrite [4]] (conn0, [])))
     = 1"
proof -
  let ?c1 = "conn0\<lparr>connected := True\<rparr>"
  let ?w1 = "snd (step os_ok (OpWrite [1, 2, 3]) (conn0, []))"
  have u: "\<not> connected conn0 \<and> OpWrite [1, 2, 3] \<noteq> OpClose"
    by (simp add: conn0_def)
  have ok: "snd (fst (connect os_ok (payload (OpWrite [1, 2, 3])) (conn0, Lock os_ok conn0 []))) = None"
    by (simp add: Lock_simp connect_def rawConn_Write_def RawWrite_loop_start getSocketError_def
          getLocalAddr_def sys_simp Let_def os_ok_def conn0_def EINPROGRESS_def)
  from connect_once_successful [of conn0 os_ok "[]" "[]" "OpWrite [1, 2, 3]"] u ok
  have s1: "connect_invocations conn0 ?w1 = 1" "fst (step os_ok (OpWrite [1, 2, 3]) (conn0, [])) = ?c1"
    by (simp_all add: connect_invocations_def calls_def)
  have c: "connected ?c1" by simp
  from connect_once_successful [of ?c1 os_ok "[OpRead [0, 0, 0, 0], OpReadFrom, OpWrite [4]]" ?w1] c
  have "connect_invocations ?c1
          (snd (run os_ok [OpRead [0, 0, 0, 0], OpReadFrom, OpWrite [4]] (?c1, ?w1)))
        = connect_invocations ?c1 ?w1"
    by blast
  moreover have "run os_ok [OpWrite [1, 2, 3], OpRead [0, 0, 0, 0], OpReadFrom, OpWrite [4]] (conn0, [])
        = run os_ok [OpRead [0, 0, 0, 0], OpReadFrom, OpWrite [4]] (?c1, ?w1)"
    using s1(2) by (simp del: step.simps) (metis prod.collapse)
  ultimately show ?thesis
    using s1(1) by (simp add: connect_invocations_def)
qed

subsection \<open>After Close\<close>

lemma connect_closed:
  assumes "closed_file_errors os" and "FileClose (f c) \<in> set (calls w)"
  shows "connect os b (c, w) =
           ((0, Some ErrFileClosing), c,
            w @ [(FileSyscallConn (f c), os w (FileSyscallConn (f c))),
                 (PrepareWrite (f c), (0, Some ErrFileClosing))])"
proof -
  from assms have sc: "snd (os w (FileSyscallConn (f c))) = None"
    by (simp add: closed_file_errors_def)
  have "FileClose (f c) \<in> set (calls (w @ [(FileSyscallConn (f c), os w (FileSyscallConn (f c)))]))"
    using assms(2) by (simp add: calls_simps)
  with assms(1) have pw:
    "os (w @ [(FileSyscallConn (f c), os w (FileSyscallConn (f c)))]) (PrepareWrite (f c))
       = (0, Some ErrFileClosing)"
    unfolding closed_file_errors_def by blast
  obtain k0 where r0: "os w (FileSyscallConn (f c)) = (k0, None)"
    using sc by (cases "os w (FileSyscallConn (f c))") simp
  show ?thesis
    using pw by (simp add: connect_def rawConn_Write_def sys_simp r0)
qed

text \<open>
  Claim C4, as stated, fails. After a successful \<open>Close\<close> of a handle that was never
  connected, \<open>Read\<close> invokes \<open>connect\<close>: \<open>SyscallConn\<close> and \<open>rawConn.Write\<close> are called
  on the closed file, and the error returned is the one of \<open>rawConn.Write\<close>.
\<close>

theorem Read_after_Close_invokes_connect:
  "fst (Close_conn os_closing (conn0, [])) = None
   \<and> Read os_closing [0, 0, 0, 0] (snd (Close_conn os_closing (conn0, []))) =
     ((0, Some ErrFileClosing), conn0,
      [(FileClose 3, (0, None)), (MuLock 3, (0, None)), (FileSyscallConn 3, (0, None)),
       (PrepareWrite 3, (0, Some ErrFileClosing)), (MuUnlock 3, (0, None))])
   \<and> connect_invocations conn0
       (snd (snd (Read os_closing [0, 0, 0, 0] (snd (Close_conn os_closing (conn0, [])))))) = 1"
  by (simp add: Close_conn_def Read_def Lock_simp Unlock_simp connect_def rawConn_Write_def
        sys_simp Let_def os_closing_def os_ok_def conn0_def connect_invocations_def calls_def)

text \<open>
  Claim C4, amended. Where the closed file behaves as package os makes it
  (\<open>closed_file_errors\<close>), after \<open>Close\<close> and any further operations: on a handle that is
  connected, \<open>Read\<close> and \<open>Write\<close> lock, unlock, go to the file and return 0 and its
  \<open>ErrClosed\<close>, without invoking \<open>connect\<close>; on a handle that is not connected they invoke
  \<open>connect\<close>, which stops at \<open>rawConn.Write\<close> before \<open>Connectx\<close> is issued, and return 0
  and \<open>ErrFileClosing\<close>, with the handle as it was. Both always return.
\<close>

theorem after_Close:
  assumes "closed_file_errors os"
    and "run os ops (snd (Close_conn os (c0, w0))) = (c, w)"
  shows "(connected c \<longrightarrow>
            Read os b (c, w) =
              ((0, Some ErrClosed), c,
               w @ [(MuLock (fd c), os w (MuLock (fd c))),
                    (MuUnlock (fd c), os (Lock os c w) (MuUnlock (fd c))),
                    (FileRead (f c) (length b), (0, Some ErrClosed))])
          \<and> Write os b (c, w) =
              ((0, Some ErrClosed), c,
               w @ [(MuLock (fd c), os w (MuLock (fd c))),
                    (MuUnlock (fd c), os (Lock os c w) (MuUnlock (fd c))),
                    (FileWrite (f c) b, (0, Some ErrClosed))]))
       \<and> (\<not> connected c \<longrightarrow>
            fst (Read os b (c, w)) = (0, Some ErrFileClosing)
          \<and> fst (snd (Read os b (c, w))) = c
          \<and> calls (since w (snd (snd (Read os b (c, w))))) =
              [MuLock (fd c), FileSyscallConn (f c), PrepareWrite (f c), MuUnlock (fd c)]
          \<and> fst (Write os b (c, w)) = (0, Some ErrFileClosing)
          \<and> fst (snd (Write os b (c, w))) = c
          \<and> calls (since w (snd (snd (Write os b (c, w))))) =
              [MuLock (fd c), FileSyscallConn (f c), PrepareWrite (f c), MuUnlock (fd c)])"
proof -
  have "FileClose (f c0) \<in> set (calls (snd (snd (Close_conn os (c0, w0)))))"
    by (simp add: Close_conn_simp calls_simps)
  moreover have "f c = f c0"
    using run_keeps [of os ops c0 "w0 @ [(FileClose (f c0), os w0 (FileClose (f c0)))]"] assms(2)
    by (simp add: Close_conn_simp)
  moreover have "set (calls (snd (snd (Close_conn os (c0, w0))))) \<subseteq> set (calls w)"
    using run_keeps [of os ops c0 "w0 @ [(FileClose (f c0), os w0 (FileClose (f c0)))]"] assms(2)
    by (simp add: Close_conn_simp)
  ultimately have cl: "FileClose (f c) \<in> set (calls w)"
    by auto
  then have cl2: "FileClose (f c) \<in> set (calls (Unlock os c (Lock os c w)))"
    and cl1: "FileClose (f c) \<in> set (calls (Lock os c w))"
    by (simp_all add: Lock_simp Unlock_simp calls_simps)
  from assms(1) cl2 have
    rd: "os (Unlock os c (Lock os c w)) (FileRead (f c) (length b)) = (0, Some ErrClosed)"
    and wr: "os (Unlock os c (Lock os c w)) (FileWrite (f c) b) = (0, Some ErrClosed)"
    unfolding closed_file_errors_def by blast+
  have conn: "connected c \<longrightarrow>
            Read os b (c, w) =
              ((0, Some ErrClosed), c,
               w @ [(MuLock (fd c), os w (MuLock (fd c))),
                    (MuUnlock (fd c), os (Lock os c w) (MuUnlock (fd c))),
                    (FileRead (f c) (length b), (0, Some ErrClosed))])
          \<and> Write os b (c, w) =
              ((0, Some ErrClosed), c,
               w @ [(MuLock (fd c), os w (MuLock (fd c))),
                    (MuUnlock (fd c), os (Lock os c w) (MuUnlock (fd c))),
                    (FileWrite (f c) b, (0, Some ErrClosed))])"
    using rd wr by (simp add: Read_connected Write_connected) (simp add: Lock_simp Unlock_simp)
  have unconn: "\<not> connected c \<longrightarrow>
            fst (Read os b (c, w)) = (0, Some ErrFileClosing)
          \<and> fst (snd (Read os b (c, w))) = c
          \<and> calls (since w (snd (snd (Read os b (c, w))))) =
              [MuLock (fd c), FileSyscallConn (f c), PrepareWrite (f c), MuUnlock (fd c)]
          \<and> fst (Write os b (c, w)) = (0, Some ErrFileClosing)
          \<and> fst (snd (Write os b (c, w))) = c
          \<and> calls (since w (snd (snd (Write os b (c, w))))) =
              [MuLock (fd c), FileSyscallConn (f c), PrepareWrite (f c), MuUnlock (fd c)]"
  proof
    assume u: "\<not> connected c"
    have keep: "c\<lparr>connected := False\<rparr> = c"
      using u by simp
    note cr = connect_closed [OF assms(1) cl1]
    show "fst (Read os b (c, w)) = (0, Some ErrFileClosing)
          \<and> fst (snd (Read os b (c, w))) = c
          \<and> calls (since w (snd (snd (Read os b (c, w))))) =
              [MuLock (fd c), FileSyscallConn (f c), PrepareWrite (f c), MuUnlock (fd c)]
          \<and> fst (Write os b (c, w)) = (0, Some ErrFileClosing)
          \<and> fst (snd (Write os b (c, w))) = c
          \<and> calls (since w (snd (snd (Write os b (c, w))))) =
              [MuLock (fd c), FileSyscallConn (f c), PrepareWrite (f c), MuUnlock (fd c)]"
      using keep
      by (simp add: Read_unconnected [OF u cr] Write_unconnected [OF u cr])
         (simp add: Lock_simp Unlock_simp since_def calls_simps)
  qed
  from conn unconn show ?thesis by blast
qed

theorem after_Close_witness:
  "closed_file_errors os_closing
   \<and> fst (Write os_closing [1, 2, 3]
           (run os_closing [OpRead [0]] (snd (Close_conn os_closing (conn0, [])))))
       = (0, Some ErrFileClosing)
   \<and> fst (Read os_closing [0, 0, 0, 0]
           (run os_closing [] (snd (Close_conn os_closing (conn0\<lparr>connected := True\<rparr>, [])))))
       = (0, Some ErrClosed)"
proof -
  have h: "closed_file_errors os_closing"
    by (simp add: closed_file_errors_def os_closing_def os_ok_def)
  obtain c w where r1: "run os_closing [OpRead [0]] (snd (Close_conn os_closing (conn0, []))) = (c, w)"
    by (metis prod.exhaust)
  have c: "c = conn0"
    using r1
    by (simp add: Close_conn_simp Read_def Lock_simp Unlock_simp connect_def rawConn_Write_def
          sys_simp Let_def os_closing_def os_ok_def conn0_def calls_def)
  have u: "\<not> connected c"
    by (simp add: c conn0_def)
  from after_Close [OF h r1, of "[1, 2, 3]"] u
  have a: "fst (Write os_closing [1, 2, 3] (c, w)) = (0, Some ErrFileClosing)"
    by blast
  let ?c1 = "conn0\<lparr>connected := True\<rparr>"
  obtain c2 w2 where r2: "run os_closing [] (snd (Close_conn os_closing (?c1, []))) = (c2, w2)"
    by (metis prod.exhaust)
  have c2: "connected c2"
    using r2 by (auto simp: Close_conn_simp)
  from after_Close [OF h r2, of "[0, 0, 0, 0]"] c2
  have b: "fst (Read os_closing [0, 0, 0, 0] (c2, w2)) = (0, Some ErrClosed)"
    by simp
  from h a b r1 r2 show ?thesis by simp
qed

end
